theory Spec2Isabelle
  imports Complex_Main
begin
section \<open>Data model of the hotel store (\<^verbatim>\<open>src/main.py\<close>, class \<^verbatim>\<open>HotelManager\<close>)\<close>

text \<open>
  The manager keeps its state in three SQLite tables. Each table is a list of rows in
  insertion order. The customers table carries no behaviour that the booking engine
  reads (foreign keys are declared but SQLite does not enforce them unless asked to, and
  the code never asks), so the store holds the rooms and the bookings.

  Dates are \<^verbatim>\<open>datetime.date\<close> values, modelled by their day number (an integer):
  \<^verbatim>\<open>(end - start).days\<close> is the difference of the two numbers. The engine stores a date
  as its ISO text \<^verbatim>\<open>YYYY-MM-DD\<close> and SQLite compares these texts byte by byte; the
  text is zero-padded with a four digit year, so the comparison of the texts is
  the comparison of the dates.

  Prices are the SQLite type REAL, so Python floats; a price is modelled by the real
  number the float denotes. The engine only copies prices. The report multiplies and
  adds them: these rounded operations are arguments of the report, see there.

  Statuses are free text columns, so they are strings.
\<close>

type_synonym date = int

record room =
  room_number :: string
  room_type :: string
  price :: real
  room_status :: string

record booking =
  booking_id :: string
  customer_id :: string
  booking_room :: string
  check_in_date :: date
  check_out_date :: date
  status :: string
  price_per_night :: real

record store =
  rooms :: "room list"
  bookings :: "booking list"

text \<open>
  \<^verbatim>\<open>sqlite3.IntegrityError\<close> is the only exception the engine's statements can raise on a
  well-typed call: inserting a booking whose identifier is already a primary key.
\<close>

datatype exn = IntegrityError

section \<open>Room management\<close>

text \<open>\<^verbatim>\<open>SELECT * FROM rooms WHERE room_number = ?\<close> followed by \<^verbatim>\<open>fetchone()\<close>: the first
  matching row, or \<^verbatim>\<open>None\<close>.\<close>

definition get_room_by_number :: "store \<Rightarrow> string \<Rightarrow> room option" where
  "get_room_by_number s rn = find (\<lambda>r. room_number r = rn) (rooms s)"

text \<open>\<^verbatim>\<open>return room['price'] if room else 0\<close>\<close>

definition get_room_price :: "store \<Rightarrow> string \<Rightarrow> real" where
  "get_room_price s rn =
     (case get_room_by_number s rn of Some r \<Rightarrow> price r | None \<Rightarrow> 0)"

text \<open>\<^verbatim>\<open>UPDATE rooms SET status = ? WHERE room_number = ?\<close>: every matching row is written,
  none when the room does not exist.\<close>

definition update_room_status :: "store \<Rightarrow> string \<Rightarrow> string \<Rightarrow> store" where
  "update_room_status s rn st =
     s\<lparr>rooms := map (\<lambda>r. if room_number r = rn then r\<lparr>room_status := st\<rparr> else r) (rooms s)\<rparr>"

text \<open>\<^verbatim>\<open>UPDATE rooms SET type = ?, price = ?, status = ? WHERE room_number = ?\<close>; the
  function returns \<^verbatim>\<open>True\<close> always.\<close>

definition update_room_details :: "store \<Rightarrow> string \<Rightarrow> string \<Rightarrow> real \<Rightarrow> string \<Rightarrow> store \<times> bool" where
  "update_room_details s rn new_type new_price new_status =
     (s\<lparr>rooms := map (\<lambda>r. if room_number r = rn
                           then r\<lparr>room_type := new_type, price := new_price, room_status := new_status\<rparr>
                           else r) (rooms s)\<rparr>, True)"

section \<open>Booking and availability\<close>

text \<open>\<^verbatim>\<open>SELECT * FROM bookings WHERE booking_id = ?\<close> followed by \<^verbatim>\<open>fetchone()\<close>.\<close>

definition get_booking_by_id :: "store \<Rightarrow> string \<Rightarrow> booking option" where
  "get_booking_by_id s bid = find (\<lambda>b. booking_id b = bid) (bookings s)"

text \<open>
  The query of \<^verbatim>\<open>is_room_available\<close>. The clause \<^verbatim>\<open>AND booking_id != ?\<close> is appended
  under \<^verbatim>\<open>if booking_id_to_ignore:\<close>, which is false for \<^verbatim>\<open>None\<close> and for the empty
  string alike.
\<close>

definition blocks :: "string \<Rightarrow> date \<Rightarrow> date \<Rightarrow> string option \<Rightarrow> booking \<Rightarrow> bool" where
  "blocks rn new_check_in new_check_out booking_id_to_ignore b \<longleftrightarrow>
     booking_room b = rn
     \<and> (status b = ''Confirmed'' \<or> status b = ''CheckedIn'')
     \<and> check_out_date b > new_check_in
     \<and> check_in_date b < new_check_out
     \<and> (case booking_id_to_ignore of
          None \<Rightarrow> True
        | Some i \<Rightarrow> if i \<noteq> [] then booking_id b \<noteq> i else True)"

definition overlap_count :: "store \<Rightarrow> string \<Rightarrow> date \<Rightarrow> date \<Rightarrow> string option \<Rightarrow> nat" where
  "overlap_count s rn new_check_in new_check_out booking_id_to_ignore =
     length (filter (blocks rn new_check_in new_check_out booking_id_to_ignore) (bookings s))"

definition is_room_available :: "store \<Rightarrow> string \<Rightarrow> date \<Rightarrow> date \<Rightarrow> string option \<Rightarrow> bool" where
  "is_room_available s rn new_check_in new_check_out booking_id_to_ignore \<longleftrightarrow>
     overlap_count s rn new_check_in new_check_out booking_id_to_ignore = 0"

text \<open>
  \<^verbatim>\<open>add_booking\<close>. The identifier drawn by \<^verbatim>\<open>_generate_id('B')\<close> is random, so it is
  the argument \<open>new_id\<close>; it is drawn after the three checks. The insertion
  raises when the identifier is already a key of the table, and then nothing is
  written. The result is the new store with the pair the function returns.
\<close>

definition add_booking ::
  "store \<Rightarrow> string \<Rightarrow> string \<Rightarrow> string \<Rightarrow> date \<Rightarrow> date \<Rightarrow> string \<Rightarrow> exn + (store \<times> bool \<times> string)" where
  "add_booking s new_id cust rn check_in check_out st =
     (if check_in \<ge> check_out
      then Inr (s, False, ''Check-out date must be after check-in date.'')
      else case get_room_by_number s rn of
        None \<Rightarrow> Inr (s, False, ''Room not found.'')
      | Some r \<Rightarrow>
          if \<not> is_room_available s rn check_in check_out None
          then Inr (s, False, ''Room '' @ rn @ '' is already booked or occupied during this period.'')
          else if new_id \<in> set (map booking_id (bookings s))
          then Inl IntegrityError
          else Inr (s\<lparr>bookings := bookings s @
                       [\<lparr>booking_id = new_id, customer_id = cust, booking_room = rn,
                         check_in_date = check_in, check_out_date = check_out,
                         status = st, price_per_night = get_room_price s rn\<rparr>]\<rparr>,
                    True, ''Booking '' @ new_id @ '' confirmed.''))"

text \<open>
  \<^verbatim>\<open>update_booking\<close>: the three checks, then the release of the old room, the claim
  of the new room, and the update of every row with the identifier.
\<close>

definition update_booking ::
  "store \<Rightarrow> string \<Rightarrow> string \<Rightarrow> date \<Rightarrow> date \<Rightarrow> string \<Rightarrow> store \<times> bool \<times> string" where
  "update_booking s bid new_room_number new_check_in new_check_out new_status =
     (case get_booking_by_id s bid of
        None \<Rightarrow> (s, False, ''Booking not found.'')
      | Some booking_to_update \<Rightarrow>
          if new_check_in \<ge> new_check_out
          then (s, False, ''Check-out date must be after check-in date.'')
          else if \<not> is_room_available s new_room_number new_check_in new_check_out (Some bid)
          then (s, False, ''Room '' @ new_room_number @ '' is not available for the new dates/room.'')
          else
            let old_room_number = booking_room booking_to_update;
                old_status = status booking_to_update;
                s1 = (if old_status = ''CheckedIn''
                      then update_room_status s old_room_number ''Available'' else s);
                s2 = (if new_status = ''CheckedIn''
                      then update_room_status s1 new_room_number ''Occupied'' else s1);
                p = get_room_price s2 new_room_number
            in (s2\<lparr>bookings := map (\<lambda>b. if booking_id b = bid
                                       then b\<lparr>booking_room := new_room_number,
                                              check_in_date := new_check_in,
                                              check_out_date := new_check_out,
                                              status := new_status,
                                              price_per_night := p\<rparr>
                                       else b) (bookings s2)\<rparr>,
                True, ''Booking '' @ bid @ '' successfully updated.''))"

section \<open>Check-in, check-out, cancellation\<close>

text \<open>\<^verbatim>\<open>UPDATE bookings SET status = ? WHERE booking_id = ?\<close>\<close>

definition set_booking_status :: "store \<Rightarrow> string \<Rightarrow> string \<Rightarrow> store" where
  "set_booking_status s bid st =
     s\<lparr>bookings := map (\<lambda>b. if booking_id b = bid then b\<lparr>status := st\<rparr> else b) (bookings s)\<rparr>"

definition check_in :: "store \<Rightarrow> string \<Rightarrow> store \<times> bool" where
  "check_in s bid =
     (case get_booking_by_id s bid of
        None \<Rightarrow> (s, False)
      | Some b \<Rightarrow>
          if status b = ''Confirmed''
          then (update_room_status (set_booking_status s bid ''CheckedIn'') (booking_room b) ''Occupied'', True)
          else (s, False))"

definition check_out :: "store \<Rightarrow> string \<Rightarrow> store \<times> bool" where
  "check_out s bid =
     (case get_booking_by_id s bid of
        None \<Rightarrow> (s, False)
      | Some b \<Rightarrow>
          if status b = ''CheckedIn''
          then (update_room_status (set_booking_status s bid ''CheckedOut'') (booking_room b) ''Available'', True)
          else (s, False))"

definition cancel_booking :: "store \<Rightarrow> string \<Rightarrow> store \<times> bool" where
  "cancel_booking s bid =
     (case get_booking_by_id s bid of
        None \<Rightarrow> (s, False)
      | Some b \<Rightarrow>
          if status b = ''Confirmed''
          then (set_booking_status s bid ''Cancelled'', True)
          else (s, False))"
section \<open>Sequences of engine operations\<close>

text \<open>The five engine operations as data, with their arguments; \<open>apply_op\<close> calls the
  function and keeps the store and the success flag, \<open>run_ops\<close> runs a sequence in
  which every operation succeeds.\<close>

datatype op =
    AddBooking string string string date date string
  | UpdateBooking string string date date string
  | CheckIn string
  | CheckOut string
  | CancelBooking string

fun apply_op :: "store \<Rightarrow> op \<Rightarrow> exn + (store \<times> bool)" where
  "apply_op s (AddBooking new_id cust rn ci co st) =
     (case add_booking s new_id cust rn ci co st of
        Inl e \<Rightarrow> Inl e
      | Inr (s', ok, msg) \<Rightarrow> Inr (s', ok))"
| "apply_op s (UpdateBooking bid rn ci co st) =
     (case update_booking s bid rn ci co st of (s', ok, msg) \<Rightarrow> Inr (s', ok))"
| "apply_op s (CheckIn bid) = Inr (check_in s bid)"
| "apply_op s (CheckOut bid) = Inr (check_out s bid)"
| "apply_op s (CancelBooking bid) = Inr (cancel_booking s bid)"

fun run_ops :: "store \<Rightarrow> op list \<Rightarrow> store option" where
  "run_ops s [] = Some s"
| "run_ops s (x # xs) =
     (case apply_op s x of
        Inr (s', True) \<Rightarrow> run_ops s' xs
      | _ \<Rightarrow> None)"

section \<open>Reporting\<close>

text \<open>
  \<^verbatim>\<open>get_reports\<close> fills a dictionary; the record has its six keys. \<^verbatim>\<open>total_nights\<close> and
  \<^verbatim>\<open>occupancy_rate\<close> are set after the loop, so their first values stand for keys not
  yet present. The loop over the bookings is a fold from the left.

  The report computes with Python floats (IEEE doubles). A float is modelled by the real
  number it denotes, and the three rounded operations the report uses are arguments of the
  model, so that nothing is said about their results beyond what the code computes:
  \<open>float_truediv\<close> is \<^verbatim>\<open>/\<close> on two integers, \<open>float_mul\<close> is \<^verbatim>\<open>*\<close> on floats (an integer
  operand is converted first, which is exact for numbers of days and for 100) and
  \<open>float_add\<close> is \<^verbatim>\<open>+\<close> on floats.
\<close>

record float_arith =
  float_truediv :: "int \<Rightarrow> int \<Rightarrow> real"
  float_mul :: "real \<Rightarrow> real \<Rightarrow> real"
  float_add :: "real \<Rightarrow> real \<Rightarrow> real"

record report =
  total_revenue :: real
  occupied_nights :: int
  completed_bookings :: int
  cancelled_bookings :: int
  total_nights :: int
  occupancy_rate :: real

text \<open>The body of the loop, for one booking.\<close>

definition report_step :: "float_arith \<Rightarrow> date \<Rightarrow> date \<Rightarrow> report \<Rightarrow> booking \<Rightarrow> report" where
  "report_step fa start_date end_date rep b =
     (let b_in = check_in_date b;
          b_out = check_out_date b;
          start = max b_in start_date;
          end' = min b_out end_date
      in if start < end'
         then
           let duration = end' - start;
               rep1 = (if status b = ''CheckedOut''
                       then rep\<lparr>total_revenue :=
                                  float_add fa (total_revenue rep)
                                    (float_mul fa (of_int duration) (price_per_night b)),
                                completed_bookings := completed_bookings rep + 1\<rparr>
                       else rep);
               rep2 = (if status b \<in> {''Confirmed'', ''CheckedIn'', ''CheckedOut''}
                       then rep1\<lparr>occupied_nights := occupied_nights rep1 + duration\<rparr>
                       else rep1)
           in if status b = ''Cancelled'' \<and> b_in \<ge> start_date \<and> b_in \<le> end_date
              then rep2\<lparr>cancelled_bookings := cancelled_bookings rep2 + 1\<rparr>
              else rep2
         else rep)"

definition get_reports :: "float_arith \<Rightarrow> store \<Rightarrow> date \<Rightarrow> date \<Rightarrow> report" where
  "get_reports fa s start_date end_date =
     (let rep = foldl (report_step fa start_date end_date)
                  \<lparr>total_revenue = 0, occupied_nights = 0, completed_bookings = 0,
                   cancelled_bookings = 0, total_nights = 0, occupancy_rate = 0\<rparr>
                  (bookings s);
          num_rooms = int (length (rooms s));
          duration_days = end_date - start_date;
          nights = num_rooms * duration_days
      in rep\<lparr>total_nights := nights,
             occupancy_rate := (if nights > 0
                                then float_mul fa (float_truediv fa (occupied_nights rep) nights) 100
                                else 0)\<rparr>)"

text \<open>
  What the loop adds for one booking, written without the accumulator: whether it counts
  as a cancellation, and the nights it gives to the occupancy.
\<close>

definition counted_cancelled :: "date \<Rightarrow> date \<Rightarrow> booking \<Rightarrow> bool" where
  "counted_cancelled start_date end_date b \<longleftrightarrow>
     status b = ''Cancelled''
     \<and> max (check_in_date b) start_date < min (check_out_date b) end_date
     \<and> start_date \<le> check_in_date b \<and> check_in_date b \<le> end_date"

definition nights_in_window :: "date \<Rightarrow> date \<Rightarrow> booking \<Rightarrow> int" where
  "nights_in_window start_date end_date b =
     (if status b \<in> {''Confirmed'', ''CheckedIn'', ''CheckedOut''}
         \<and> max (check_in_date b) start_date < min (check_out_date b) end_date
      then min (check_out_date b) end_date - max (check_in_date b) start_date else 0)"

section \<open>The invariants of the store\<close>

text \<open>
  A booking is active when it is Confirmed or CheckedIn. Two bookings overlap when their
  half-open intervals from check-in to check-out share a day. The primary key of
  the bookings table makes the identifiers of the rows distinct.
\<close>

definition active :: "booking \<Rightarrow> bool" where
  "active b \<longleftrightarrow> status b = ''Confirmed'' \<or> status b = ''CheckedIn''"

definition overlapping :: "booking \<Rightarrow> booking \<Rightarrow> bool" where
  "overlapping a b \<longleftrightarrow>
     max (check_in_date a) (check_in_date b) < min (check_out_date a) (check_out_date b)"

definition no_double_booking :: "store \<Rightarrow> bool" where
  "no_double_booking s \<longleftrightarrow>
     (\<forall>a\<in>set (bookings s). \<forall>b\<in>set (bookings s).
        booking_id a \<noteq> booking_id b \<and> booking_room a = booking_room b
        \<and> active a \<and> active b \<longrightarrow> \<not> overlapping a b)"

definition unique_booking_ids :: "store \<Rightarrow> bool" where
  "unique_booking_ids s \<longleftrightarrow> distinct (map booking_id (bookings s))"


text \<open>Both operations that write dates demand the check-in before the check-out.\<close>

definition valid_dates :: "store \<Rightarrow> bool" where
  "valid_dates s \<longleftrightarrow> (\<forall>b\<in>set (bookings s). check_in_date b < check_out_date b)"






section \<open>A small hotel\<close>

text \<open>Two rooms and one confirmed booking, and a sequence of operations on them: every
  operation succeeds. They serve as concrete inputs below.\<close>

definition demo_store :: store where
  "demo_store =
     \<lparr>rooms = [\<lparr>room_number = ''101'', room_type = ''Standard'', price = 100, room_status = ''Available''\<rparr>,
               \<lparr>room_number = ''102'', room_type = ''Deluxe'', price = 150, room_status = ''Available''\<rparr>],
      bookings = [\<lparr>booking_id = ''B50001'', customer_id = ''C1000'', booking_room = ''101'',
                   check_in_date = 10, check_out_date = 12, status = ''Confirmed'',
                   price_per_night = 100\<rparr>]\<rparr>"

definition demo_booking :: booking where
  "demo_booking = \<lparr>booking_id = ''B50001'', customer_id = ''C1000'', booking_room = ''101'',
                   check_in_date = 10, check_out_date = 12, status = ''Confirmed'',
                   price_per_night = 100\<rparr>"

definition demo_ops :: "op list" where
  "demo_ops =
     [AddBooking ''B50002'' ''C1001'' ''101'' 12 14 ''Confirmed'',
      CheckIn ''B50001'',
      UpdateBooking ''B50002'' ''102'' 11 13 ''Confirmed'',
      CheckOut ''B50001'',
      CancelBooking ''B50002'']"


text \<open>The small hotel after the price of room 101 was raised to 120.\<close>

definition repriced_hotel :: "store" where
  "repriced_hotel = fst (update_room_details demo_store ''101'' ''Standard'' 120 ''Available'')"

text \<open>A booking moved to the room number 999, which no room has, and a second booking.\<close>

definition ghost_room_ops :: "op list" where
  "ghost_room_ops =
     [UpdateBooking ''B50001'' ''999'' 10 12 ''Confirmed'',
      AddBooking ''B50002'' ''C1001'' ''101'' 10 12 ''Confirmed'']"

definition ghost_room_store :: store where
  "ghost_room_store =
     \<lparr>rooms = rooms demo_store,
      bookings = [\<lparr>booking_id = ''B50001'', customer_id = ''C1000'', booking_room = ''999'',
                   check_in_date = 10, check_out_date = 12, status = ''Confirmed'',
                   price_per_night = 0\<rparr>,
                  \<lparr>booking_id = ''B50002'', customer_id = ''C1001'', booking_room = ''101'',
                   check_in_date = 10, check_out_date = 12, status = ''Confirmed'',
                   price_per_night = 100\<rparr>]\<rparr>"

text \<open>A cancelled booking whose room and dates were booked again.\<close>

definition rebooked_ops :: "op list" where
  "rebooked_ops =
     [CancelBooking ''B50001'',
      AddBooking ''B50002'' ''C1001'' ''101'' 10 12 ''Confirmed'']"

definition rebooked_store :: store where
  "rebooked_store =
     \<lparr>rooms = rooms demo_store,
      bookings = [\<lparr>booking_id = ''B50001'', customer_id = ''C1000'', booking_room = ''101'',
                   check_in_date = 10, check_out_date = 12, status = ''Cancelled'',
                   price_per_night = 100\<rparr>,
                  \<lparr>booking_id = ''B50002'', customer_id = ''C1001'', booking_room = ''101'',
                   check_in_date = 10, check_out_date = 12, status = ''Confirmed'',
                   price_per_night = 100\<rparr>]\<rparr>"






text \<open>A second booking of room 101, for the days 12 to 14, made and then cancelled.\<close>

definition late_cancel_ops :: "op list" where
  "late_cancel_ops =
     [AddBooking ''B50002'' ''C1001'' ''101'' 12 14 ''Confirmed'',
      CancelBooking ''B50002'']"

definition late_cancel_store :: store where
  "late_cancel_store =
     \<lparr>rooms = rooms demo_store,
      bookings = [\<lparr>booking_id = ''B50001'', customer_id = ''C1000'', booking_room = ''101'',
                   check_in_date = 10, check_out_date = 12, status = ''Confirmed'',
                   price_per_night = 100\<rparr>,
                  \<lparr>booking_id = ''B50002'', customer_id = ''C1001'', booking_room = ''101'',
                   check_in_date = 12, check_out_date = 14, status = ''Cancelled'',
                   price_per_night = 100\<rparr>]\<rparr>"


text \<open>
  Float operations that do not round. They give what the rounded operations give
  whenever the exact result is itself a float, as for two nights of eight (a quarter) and
  a quarter times 100.
\<close>

definition exact_arith :: float_arith where
  "exact_arith = \<lparr>float_truediv = (\<lambda>a b. of_int a / of_int b), float_mul = (*), float_add = (+)\<rparr>"
section \<open>Basic facts\<close>

lemmas engine_defs =
  add_booking_def update_booking_def check_in_def check_out_def cancel_booking_def
  get_booking_by_id_def get_room_by_number_def get_room_price_def
  update_room_status_def set_booking_status_def
  is_room_available_def overlap_count_def blocks_def


lemma overlap_count_zero:
  "overlap_count s rn a b ig = 0 \<longleftrightarrow> (\<forall>x\<in>set (bookings s). \<not> blocks rn a b ig x)"
  by (simp add: overlap_count_def filter_empty_conv)


lemma add_booking_failure: "add_booking s new_id cust rn ci co st = Inr (s', False, msg) \<Longrightarrow> s' = s"
  by (auto simp: add_booking_def split: if_splits option.splits)

lemma update_booking_failure: "update_booking s bid rn ci co st = (s', False, msg) \<Longrightarrow> s' = s"
  by (auto simp: update_booking_def Let_def split: if_splits option.splits)

lemma check_in_failure: "check_in s bid = (s', False) \<Longrightarrow> s' = s"
  by (auto simp: check_in_def split: if_splits option.splits)
lemma check_out_failure: "check_out s bid = (s', False) \<Longrightarrow> s' = s"
  by (auto simp: check_out_def split: if_splits option.splits)
lemma cancel_booking_failure: "cancel_booking s bid = (s', False) \<Longrightarrow> s' = s"
  by (auto simp: cancel_booking_def split: if_splits option.splits)


lemma overlapping_intervals:
  "overlapping a b \<longleftrightarrow>
     {check_in_date a ..< check_out_date a} \<inter> {check_in_date b ..< check_out_date b} \<noteq> {}"
  by (auto simp: overlapping_def)

lemma get_booking_by_id_Some:
  "get_booking_by_id s bid = Some b \<Longrightarrow> b \<in> set (bookings s) \<and> booking_id b = bid"
  by (auto simp: get_booking_by_id_def find_Some_iff in_set_conv_nth)

lemma unique_booking_ids_eq:
  "unique_booking_ids s \<Longrightarrow> a \<in> set (bookings s) \<Longrightarrow> b \<in> set (bookings s)
     \<Longrightarrow> booking_id a = booking_id b \<Longrightarrow> a = b"
  by (auto simp: unique_booking_ids_def distinct_map dest: inj_onD)

lemma bookings_update_room_status [simp]:
  "bookings (update_room_status s rn st) = bookings s"
  by (simp add: update_room_status_def)


lemma ids_set_booking_status [simp]:
  "map booking_id (bookings (set_booking_status s bid st)) = map booking_id (bookings s)"
  by (simp add: set_booking_status_def comp_def if_distrib[of booking_id] cong: if_cong)

text \<open>What a successful call of each operation did.\<close>

lemma add_booking_success:
  assumes "add_booking s new_id cust rn ci co st = Inr (s', True, msg)"
  shows "ci < co" "get_room_by_number s rn \<noteq> None" "is_room_available s rn ci co None"
    "new_id \<notin> set (map booking_id (bookings s))" "rooms s' = rooms s"
    "bookings s' = bookings s @
       [\<lparr>booking_id = new_id, customer_id = cust, booking_room = rn,
         check_in_date = ci, check_out_date = co,
         status = st, price_per_night = get_room_price s rn\<rparr>]"
  using assms by (auto simp: add_booking_def split: if_splits option.splits)

lemma find_map_same_key:
  assumes "\<And>x. P (f x) = P x"
  shows "find P (map f xs) = map_option f (find P xs)"
  using assms by (induction xs) auto

lemma get_room_by_number_update_room_status:
  "get_room_by_number (update_room_status s rn st) x =
     map_option (\<lambda>r. if room_number r = rn then r\<lparr>room_status := st\<rparr> else r)
       (get_room_by_number s x)"
  unfolding get_room_by_number_def update_room_status_def
  by (simp add: find_map_same_key)

lemma get_room_price_update_room_status [simp]:
  "get_room_price (update_room_status s rn st) x = get_room_price s x"
  by (simp add: get_room_price_def get_room_by_number_update_room_status split: option.splits)

lemma update_booking_success:
  assumes "update_booking s bid rn ci co st = (s', True, msg)"
  shows "ci < co" "get_booking_by_id s bid \<noteq> None" "is_room_available s rn ci co (Some bid)"
    "bookings s' = map (\<lambda>b. if booking_id b = bid
                           then b\<lparr>booking_room := rn, check_in_date := ci, check_out_date := co,
                                  status := st, price_per_night := get_room_price s rn\<rparr>
                           else b) (bookings s)"
  using assms
  by (auto simp: update_booking_def Let_def split: if_splits option.splits)

lemma available_no_blocker:
  "is_room_available s rn ci co ig \<Longrightarrow> x \<in> set (bookings s) \<Longrightarrow> \<not> blocks rn ci co ig x"
  by (simp add: is_room_available_def overlap_count_zero)

lemma no_double_bookingD:
  assumes "no_double_booking s" "a \<in> set (bookings s)" "b \<in> set (bookings s)"
    "booking_id a \<noteq> booking_id b" "booking_room a = booking_room b" "active a" "active b"
  shows "\<not> overlapping a b"
  using assms unfolding no_double_booking_def by simp

lemma overlapping_sym: "overlapping a b = overlapping b a"
  by (auto simp: overlapping_def)

lemma overlapping_blocks:
  assumes "overlapping x n" "active x" "booking_room x = rn"
    "check_in_date n = ci" "check_out_date n = co"
  shows "blocks rn ci co None x"
  using assms by (auto simp: overlapping_def active_def blocks_def)

lemma overlapping_blocks_ignore:
  assumes "overlapping x n" "active x" "booking_room x = rn"
    "check_in_date n = ci" "check_out_date n = co" "booking_id x \<noteq> bid"
  shows "blocks rn ci co (Some bid) x"
  using assms by (auto simp: overlapping_def active_def blocks_def)

lemma add_booking_no_double_booking:
  assumes ok: "add_booking s new_id cust rn ci co st = Inr (s', True, msg)"
    and inv: "no_double_booking s"
  shows "no_double_booking s'"
proof -
  define n where "n = \<lparr>booking_id = new_id, customer_id = cust, booking_room = rn,
         check_in_date = ci, check_out_date = co,
         status = st, price_per_night = get_room_price s rn\<rparr>"
  have bs: "bookings s' = bookings s @ [n]"
    using add_booking_success(6)[OF ok] by (simp add: n_def)
  have av: "is_room_available s rn ci co None" by (rule add_booking_success(3)[OF ok])
  have n_fields: "booking_room n = rn" "check_in_date n = ci" "check_out_date n = co"
    by (simp_all add: n_def)
  have old_new: "\<not> overlapping x n"
    if "x \<in> set (bookings s)" "active x" "booking_room x = booking_room n" for x
  proof
    assume "overlapping x n"
    then have "blocks rn ci co None x"
      using that n_fields by (intro overlapping_blocks[where n = n]) simp_all
    with available_no_blocker[OF av that(1)] show False by simp
  qed
  show ?thesis
    unfolding no_double_booking_def bs
  proof (intro ballI impI)
    fix a b
    assume a: "a \<in> set (bookings s @ [n])" and b: "b \<in> set (bookings s @ [n])"
      and h: "booking_id a \<noteq> booking_id b \<and> booking_room a = booking_room b \<and> active a \<and> active b"
    consider "a \<in> set (bookings s)" "b \<in> set (bookings s)"
      | "a \<in> set (bookings s)" "b = n" | "a = n" "b \<in> set (bookings s)" | "a = n" "b = n"
      using a b by auto
    then show "\<not> overlapping a b"
    proof cases
      case 1
      with inv h show ?thesis by (intro no_double_bookingD[of s]) simp_all
    next
      case 2
      with h old_new[of a] show ?thesis by simp
    next
      case 3
      with h old_new[of b] show ?thesis by (simp add: overlapping_sym[of n b])
    next
      case 4
      with h show ?thesis by simp
    qed
  qed
qed

lemma update_booking_no_double_booking:
  assumes ok: "update_booking s bid rn ci co st = (s', True, msg)"
    and inv: "no_double_booking s"
  shows "no_double_booking s'"
proof -
  define upd :: "booking \<Rightarrow> booking" where "upd = (\<lambda>b. if booking_id b = bid
                           then b\<lparr>booking_room := rn, check_in_date := ci, check_out_date := co,
                                  status := st, price_per_night := get_room_price s rn\<rparr>
                           else b)"
  have bs: "bookings s' = map upd (bookings s)"
    using update_booking_success(4)[OF ok] by (simp add: upd_def)
  have av: "is_room_available s rn ci co (Some bid)" by (rule update_booking_success(3)[OF ok])
  have upd_id: "booking_id (upd x) = booking_id x" for x by (simp add: upd_def)
  have moved: "booking_room (upd x) = rn \<and> check_in_date (upd x) = ci \<and> check_out_date (upd x) = co"
    if "booking_id x = bid" for x using that by (simp add: upd_def)
  have kept: "upd x = x" if "booking_id x \<noteq> bid" for x using that by (simp add: upd_def)
  have other_moved: "\<not> overlapping x (upd y)"
    if "x \<in> set (bookings s)" "booking_id x \<noteq> bid" "booking_id y = bid"
      "active x" "booking_room x = booking_room (upd y)" for x y
  proof
    assume "overlapping x (upd y)"
    then have "blocks rn ci co (Some bid) x"
      using that moved[of y] by (intro overlapping_blocks_ignore[where n = "upd y"]) simp_all
    with available_no_blocker[OF av that(1)] show False by simp
  qed
  show ?thesis
    unfolding no_double_booking_def bs
  proof (intro ballI impI)
    fix a b
    assume "a \<in> set (map upd (bookings s))" and "b \<in> set (map upd (bookings s))"
      and h: "booking_id a \<noteq> booking_id b \<and> booking_room a = booking_room b \<and> active a \<and> active b"
    then obtain x y where x: "x \<in> set (bookings s)" "a = upd x"
      and y: "y \<in> set (bookings s)" "b = upd y" by auto
    from h x y have ne: "booking_id x \<noteq> booking_id y" by (simp add: upd_id)
    consider "booking_id x \<noteq> bid" "booking_id y \<noteq> bid"
      | "booking_id x \<noteq> bid" "booking_id y = bid"
      | "booking_id x = bid" "booking_id y \<noteq> bid"
      using ne by (cases "booking_id x = bid"; cases "booking_id y = bid") auto
    then show "\<not> overlapping a b"
    proof cases
      case 1
      then have "a = x" "b = y" using x y by (simp_all add: kept)
      with inv h x y show ?thesis by (intro no_double_bookingD[of s]) simp_all
    next
      case 2
      then have "a = x" using x by (simp add: kept)
      with other_moved[of x y] 2 x y h show ?thesis by simp
    next
      case 3
      then have "b = y" using y by (simp add: kept)
      with other_moved[of y x] 3 x y h show ?thesis by (simp add: overlapping_sym[of "upd x" y])
    qed
  qed
qed

text \<open>A change of status that leaves every active booking active, or makes bookings inactive.\<close>

lemma set_booking_status_no_double_booking:
  assumes inv: "no_double_booking s"
    and act: "active_new \<Longrightarrow> (\<forall>x\<in>set (bookings s). booking_id x = bid \<longrightarrow> active x)"
    and new: "active_new \<longleftrightarrow> (st = ''Confirmed'' \<or> st = ''CheckedIn'')"
  shows "no_double_booking (set_booking_status s bid st)"
proof -
  define upd :: "booking \<Rightarrow> booking" where "upd = (\<lambda>b. if booking_id b = bid then b\<lparr>status := st\<rparr> else b)"
  have bs: "bookings (set_booking_status s bid st) = map upd (bookings s)"
    by (simp add: set_booking_status_def upd_def)
  have same: "booking_id (upd x) = booking_id x" "booking_room (upd x) = booking_room x"
    "overlapping (upd x) (upd y) = overlapping x y" for x y
    by (simp_all add: upd_def overlapping_def)
  have act': "active x" if "x \<in> set (bookings s)" "active (upd x)" for x
  proof (cases "booking_id x = bid")
    case True
    with that have "active_new" by (simp add: upd_def active_def new)
    with act that True show ?thesis by blast
  next
    case False
    with that show ?thesis by (simp add: upd_def)
  qed
  show ?thesis
    unfolding no_double_booking_def bs
  proof (intro ballI impI)
    fix a b
    assume "a \<in> set (map upd (bookings s))" and "b \<in> set (map upd (bookings s))"
      and h: "booking_id a \<noteq> booking_id b \<and> booking_room a = booking_room b \<and> active a \<and> active b"
    then obtain x y where x: "x \<in> set (bookings s)" "a = upd x"
      and y: "y \<in> set (bookings s)" "b = upd y" by auto
    with h have "booking_id x \<noteq> booking_id y \<and> booking_room x = booking_room y \<and> active x \<and> active y"
      by (simp add: same act')
    with inv x y have "\<not> overlapping x y" by (intro no_double_bookingD[of s]) simp_all
    with x y show "\<not> overlapping a b" by (simp add: same)
  qed
qed

lemma check_in_no_double_booking:
  assumes ok: "check_in s bid = (s', True)"
    and pk: "unique_booking_ids s" and inv: "no_double_booking s"
  shows "no_double_booking s'"
proof -
  from ok obtain b where b: "get_booking_by_id s bid = Some b" "status b = ''Confirmed''"
    and s': "s' = update_room_status (set_booking_status s bid ''CheckedIn'') (booking_room b) ''Occupied''"
    by (auto simp: check_in_def split: option.splits if_splits)
  have "\<forall>x\<in>set (bookings s). booking_id x = bid \<longrightarrow> active x"
  proof (intro ballI impI)
    fix x assume "x \<in> set (bookings s)" "booking_id x = bid"
    with get_booking_by_id_Some[OF b(1)] pk have "x = b" by (auto intro: unique_booking_ids_eq)
    with b show "active x" by (simp add: active_def)
  qed
  then have "no_double_booking (set_booking_status s bid ''CheckedIn'')"
    by (intro set_booking_status_no_double_booking[OF inv, where active_new = True]) simp_all
  then show ?thesis by (simp add: s' no_double_booking_def)
qed

lemma check_out_no_double_booking:
  assumes ok: "check_out s bid = (s', True)" and inv: "no_double_booking s"
  shows "no_double_booking s'"
proof -
  from ok obtain b :: booking where
    s': "s' = update_room_status (set_booking_status s bid ''CheckedOut'') (booking_room b) ''Available''"
    by (auto simp: check_out_def split: option.splits if_splits)
  have "no_double_booking (set_booking_status s bid ''CheckedOut'')"
    by (intro set_booking_status_no_double_booking[OF inv, where active_new = False]) simp_all
  then show ?thesis by (simp add: s' no_double_booking_def)
qed

lemma cancel_booking_no_double_booking:
  assumes ok: "cancel_booking s bid = (s', True)" and inv: "no_double_booking s"
  shows "no_double_booking s'"
proof -
  from ok have s': "s' = set_booking_status s bid ''Cancelled''"
    by (auto simp: cancel_booking_def split: option.splits if_splits)
  show ?thesis unfolding s'
    by (intro set_booking_status_no_double_booking[OF inv, where active_new = False]) simp_all
qed

text \<open>The primary key of the bookings table is kept by every operation.\<close>

lemma apply_op_unique_booking_ids:
  assumes "apply_op s x = Inr (s', ok)" "unique_booking_ids s"
  shows "unique_booking_ids s'"
proof (cases x)
  case (AddBooking new_id cust rn ci co st)
  with assms show ?thesis
    by (auto simp: add_booking_def unique_booking_ids_def split: if_splits option.splits sum.splits)
next
  case (UpdateBooking bid rn ci co st)
  with assms show ?thesis
    by (auto simp: update_booking_def Let_def unique_booking_ids_def comp_def
        if_distrib[of booking_id] split: if_splits option.splits prod.splits cong: if_cong)
next
  case (CheckIn bid)
  with assms show ?thesis
    by (auto simp: check_in_def unique_booking_ids_def split: if_splits option.splits)
next
  case (CheckOut bid)
  with assms show ?thesis
    by (auto simp: check_out_def unique_booking_ids_def split: if_splits option.splits)
next
  case (CancelBooking bid)
  with assms show ?thesis
    by (auto simp: cancel_booking_def unique_booking_ids_def split: if_splits option.splits)
qed

lemma apply_op_no_double_booking:
  assumes "apply_op s x = Inr (s', True)" "unique_booking_ids s" "no_double_booking s"
  shows "no_double_booking s'"
proof (cases x)
  case (AddBooking new_id cust rn ci co st)
  with assms(1) obtain msg where "add_booking s new_id cust rn ci co st = Inr (s', True, msg)"
    by (auto split: sum.splits prod.splits)
  then show ?thesis using assms(3) by (rule add_booking_no_double_booking)
next
  case (UpdateBooking bid rn ci co st)
  with assms(1) obtain msg where "update_booking s bid rn ci co st = (s', True, msg)"
    by (auto split: prod.splits)
  then show ?thesis using assms(3) by (rule update_booking_no_double_booking)
next
  case (CheckIn bid)
  with assms show ?thesis by (simp add: check_in_no_double_booking)
next
  case (CheckOut bid)
  with assms show ?thesis by (simp add: check_out_no_double_booking)
next
  case (CancelBooking bid)
  with assms show ?thesis by (simp add: cancel_booking_no_double_booking)
qed

section \<open>Stores the engine keeps well formed\<close>

text \<open>Every booking the engine writes checks in before it checks out, and the operations
  add no identifier but the generated one.\<close>

lemma set_booking_status_dates:
  "valid_dates s \<Longrightarrow> valid_dates (set_booking_status s bid st)"
  by (auto simp: valid_dates_def set_booking_status_def)

lemma valid_dates_update_room_status [simp]:
  "valid_dates (update_room_status s rn st) = valid_dates s"
  by (simp add: valid_dates_def)

lemma apply_op_valid_dates:
  assumes "apply_op s x = Inr (s', ok)" "valid_dates s"
  shows "valid_dates s'"
proof (cases x)
  case (AddBooking new_id cust rn ci co st)
  with assms show ?thesis
    by (auto simp: add_booking_def valid_dates_def split: if_splits option.splits sum.splits)
next
  case (UpdateBooking bid rn ci co st)
  show ?thesis
  proof (cases ok)
    case True
    with UpdateBooking assms(1) obtain msg where u: "update_booking s bid rn ci co st = (s', True, msg)"
      by (auto split: prod.splits)
    from assms(2) update_booking_success(1)[OF u] show ?thesis
      by (auto simp: valid_dates_def update_booking_success(4)[OF u])
  next
    case False
    with UpdateBooking assms(1) obtain msg where "update_booking s bid rn ci co st = (s', False, msg)"
      by (auto split: prod.splits)
    with assms(2) update_booking_failure show ?thesis by blast
  qed
next
  case (CheckIn bid)
  with assms show ?thesis
    by (auto simp: check_in_def set_booking_status_dates split: if_splits option.splits)
next
  case (CheckOut bid)
  with assms show ?thesis
    by (auto simp: check_out_def set_booking_status_dates split: if_splits option.splits)
next
  case (CancelBooking bid)
  with assms show ?thesis
    by (auto simp: cancel_booking_def set_booking_status_dates split: if_splits option.splits)
qed

lemma apply_op_ids:
  assumes "apply_op s x = Inr (s', ok)"
  shows "map booking_id (bookings s') = map booking_id (bookings s)
     \<or> (\<exists>new_id cust rn ci co st. x = AddBooking new_id cust rn ci co st
           \<and> map booking_id (bookings s') = map booking_id (bookings s) @ [new_id])"
proof (cases x)
  case (AddBooking new_id cust rn ci co st)
  with assms show ?thesis
    by (auto simp: add_booking_def split: if_splits option.splits sum.splits)
next
  case (UpdateBooking bid rn ci co st)
  with assms show ?thesis
    by (auto simp: update_booking_def Let_def comp_def if_distrib[of booking_id]
        split: if_splits option.splits prod.splits cong: if_cong)
next
  case (CheckIn bid)
  with assms show ?thesis by (auto simp: check_in_def split: if_splits option.splits)
next
  case (CheckOut bid)
  with assms show ?thesis by (auto simp: check_out_def split: if_splits option.splits)
next
  case (CancelBooking bid)
  with assms show ?thesis by (auto simp: cancel_booking_def split: if_splits option.splits)
qed

text \<open>Identifiers stay non-empty as long as the generated ones are, as \<^verbatim>\<open>_generate_id\<close>
  ensures with the letter B.\<close>

lemma apply_op_ids_nonempty:
  assumes "apply_op s x = Inr (s', ok)" "[] \<notin> set (map booking_id (bookings s))"
    and "\<And>new_id cust rn ci co st. x = AddBooking new_id cust rn ci co st \<Longrightarrow> new_id \<noteq> []"
  shows "[] \<notin> set (map booking_id (bookings s'))"
proof -
  from apply_op_ids[OF assms(1)] consider
    "map booking_id (bookings s') = map booking_id (bookings s)"
    | new_id where "new_id \<noteq> []" "map booking_id (bookings s') = map booking_id (bookings s) @ [new_id]"
    using assms(3) by blast
  then show ?thesis
  proof cases
    case 1
    with assms(2) show ?thesis by simp
  next
    case 2
    with assms(2) show ?thesis by auto
  qed
qed
section \<open>Failures leave the store alone\<close>

text \<open>
  Claim C7. Whenever one of the five engine operations (\<open>add_booking\<close>,
  \<open>update_booking\<close>, \<open>check_in\<close>, \<open>check_out\<close>, \<open>cancel_booking\<close>) returns a failure,
  that is \<^verbatim>\<open>False\<close> or a pair that starts with \<^verbatim>\<open>False\<close>, the whole store (every booking
  row and every room row) is what it was before the call.
\<close>

theorem failure_leaves_store: "apply_op s x = Inr (s', False) \<Longrightarrow> s' = s"
proof (cases x)
  case (AddBooking new_id cust rn ci co st)
  assume "apply_op s x = Inr (s', False)"
  with AddBooking obtain msg where "add_booking s new_id cust rn ci co st = Inr (s', False, msg)"
    by (auto split: sum.splits prod.splits)
  then show ?thesis by (rule add_booking_failure)
next
  case (UpdateBooking bid rn ci co st)
  assume "apply_op s x = Inr (s', False)"
  with UpdateBooking obtain msg where "update_booking s bid rn ci co st = (s', False, msg)"
    by (auto split: prod.splits)
  then show ?thesis by (rule update_booking_failure)
next
  case (CheckIn bid)
  assume "apply_op s x = Inr (s', False)"
  with CheckIn show ?thesis by (simp add: check_in_failure)
next
  case (CheckOut bid)
  assume "apply_op s x = Inr (s', False)"
  with CheckOut show ?thesis by (simp add: check_out_failure)
next
  case (CancelBooking bid)
  assume "apply_op s x = Inr (s', False)"
  with CancelBooking show ?thesis by (simp add: cancel_booking_failure)
qed


text \<open>Checking out a booking that is only Confirmed fails, and the store is the same.\<close>

theorem failure_leaves_store_witness:
  "apply_op demo_store (CheckOut ''B50001'') = Inr (fst (check_out demo_store ''B50001''), False)
   \<and> fst (check_out demo_store ''B50001'') = demo_store"
proof -
  have h: "apply_op demo_store (CheckOut ''B50001'')
             = Inr (fst (check_out demo_store ''B50001''), False)"
    by (simp add: demo_store_def engine_defs)
  from failure_leaves_store[OF h] h show ?thesis by simp
qed

section \<open>The availability check\<close>

text \<open>
  Claim C2. For every room, every pair of dates and every optional identifier to ignore,
  \<open>is_room_available\<close> is false exactly when some booking on the room is Confirmed or
  CheckedIn, has an identifier other than the ignored one, checks out after the new
  check-in and checks in before the new check-out. So a booking that ends on the new
  check-in day or starts on the new check-out day does not block, and neither does a
  Cancelled or CheckedOut booking.

  The engine tests the identifier to ignore for truth, so the empty string is treated as
  no identifier at all. Identifiers of stored bookings are never empty (the generator
  gives the letter B and a number), which is the assumption for that one argument.
\<close>

theorem is_room_available_contract:
  assumes "booking_id_to_ignore = Some [] \<longrightarrow> (\<forall>b\<in>set (bookings s). booking_id b \<noteq> [])"
  shows "is_room_available s rn new_check_in new_check_out booking_id_to_ignore = False \<longleftrightarrow>
     (\<exists>b\<in>set (bookings s). booking_room b = rn
        \<and> (status b = ''Confirmed'' \<or> status b = ''CheckedIn'')
        \<and> Some (booking_id b) \<noteq> booking_id_to_ignore
        \<and> check_out_date b > new_check_in \<and> check_in_date b < new_check_out)"
proof (cases booking_id_to_ignore)
  case None
  then show ?thesis
    by (auto simp: is_room_available_def overlap_count_zero blocks_def)
next
  case (Some i)
  show ?thesis
  proof (cases "i = []")
    case True
    with Some assms have "\<forall>b\<in>set (bookings s). booking_id b \<noteq> []" by simp
    with Some True show ?thesis
      by (auto simp: is_room_available_def overlap_count_zero blocks_def)
  next
    case False
    with Some show ?thesis
      by (auto simp: is_room_available_def overlap_count_zero blocks_def)
  qed
qed


text \<open>Room 101 is booked from day 10 to day 12: a stay from 11 to 13 is refused, the
  adjacent stays from 12 to 14 and from 8 to 10 are accepted, and ignoring the booking
  itself frees the room. The empty identifier ignores nothing.\<close>

theorem is_room_available_contract_witness:
  "is_room_available demo_store ''101'' 11 13 None = False
   \<and> is_room_available demo_store ''101'' 12 14 None
   \<and> is_room_available demo_store ''101'' 8 10 None
   \<and> is_room_available demo_store ''101'' 11 13 (Some ''B50001'')
   \<and> is_room_available demo_store ''101'' 11 13 (Some []) = False"
proof -
  have ne: "ig = Some [] \<longrightarrow> (\<forall>b\<in>set (bookings demo_store). booking_id b \<noteq> [])" for ig
    by (simp add: demo_store_def)
  note c = is_room_available_contract[where s = demo_store and rn = "''101''"]
  show ?thesis
    using c[where booking_id_to_ignore = None and new_check_in = 11 and new_check_out = 13, OF ne]
      c[where booking_id_to_ignore = None and new_check_in = 12 and new_check_out = 14, OF ne]
      c[where booking_id_to_ignore = None and new_check_in = 8 and new_check_out = 10, OF ne]
      c[where booking_id_to_ignore = "Some ''B50001''" and new_check_in = 11 and new_check_out = 13, OF ne]
      c[where booking_id_to_ignore = "Some []" and new_check_in = 11 and new_check_out = 13, OF ne]
    by (simp add: demo_store_def)
qed
section \<open>No room is booked twice\<close>

text \<open>
  Claim C1. Start from any store in which no two distinct active bookings (Confirmed or
  CheckedIn) of one room have overlapping intervals from check-in to check-out. After
  any sequence of successful engine operations (\<open>add_booking\<close>, \<open>update_booking\<close>,
  \<open>check_in\<close>, \<open>check_out\<close>, \<open>cancel_booking\<close>) the store still has no two distinct active
  bookings of one room that overlap. The rows of the bookings table have distinct
  identifiers, as its primary key demands.
\<close>

theorem no_double_booking_invariant:
  assumes "unique_booking_ids s" "no_double_booking s" "run_ops s ops = Some s'"
  shows "no_double_booking s'"
  using assms
proof (induction ops arbitrary: s)
  case Nil
  then show ?case by simp
next
  case (Cons x xs)
  from Cons.prems(3) obtain s1 where step: "apply_op s x = Inr (s1, True)"
    and rest: "run_ops s1 xs = Some s'"
    by (auto split: sum.splits prod.splits bool.splits)
  have "unique_booking_ids s1" using step Cons.prems(1) by (rule apply_op_unique_booking_ids)
  moreover have "no_double_booking s1" using step Cons.prems(1,2) by (rule apply_op_no_double_booking)
  ultimately show ?case using rest by (rule Cons.IH)
qed

text \<open>The five operations of \<open>demo_ops\<close> all succeed on \<open>demo_store\<close>.\<close>

theorem no_double_booking_invariant_witness:
  "unique_booking_ids demo_store \<and> no_double_booking demo_store
   \<and> (\<exists>s'. run_ops demo_store demo_ops = Some s' \<and> no_double_booking s')"
proof -
  have pk: "unique_booking_ids demo_store"
    by (simp add: demo_store_def unique_booking_ids_def)
  have inv: "no_double_booking demo_store"
    by (simp add: demo_store_def no_double_booking_def)
  have "run_ops demo_store demo_ops \<noteq> None"
    by (simp add: demo_store_def demo_ops_def engine_defs)
  then obtain s' where run: "run_ops demo_store demo_ops = Some s'" by blast
  from no_double_booking_invariant[OF pk inv run] pk inv run show ?thesis by blast
qed

section \<open>Creating a booking\<close>

lemma add_booking_invalid_dates:
  "d_in \<ge> d_out \<Longrightarrow>
      add_booking s new_id cust rn d_in d_out st
        = Inr (s, False, ''Check-out date must be after check-in date.'')"
  by (simp add: add_booking_def)

lemma add_booking_room_not_found:
  "d_in < d_out \<Longrightarrow> get_room_by_number s rn = None \<Longrightarrow>
      add_booking s new_id cust rn d_in d_out st = Inr (s, False, ''Room not found.'')"
  by (simp add: add_booking_def)

lemma add_booking_room_unavailable:
  "d_in < d_out \<Longrightarrow> get_room_by_number s rn = Some r
     \<Longrightarrow> \<not> is_room_available s rn d_in d_out None \<Longrightarrow>
      add_booking s new_id cust rn d_in d_out st
        = Inr (s, False, ''Room '' @ rn @ '' is already booked or occupied during this period.'')"
  by (simp add: add_booking_def)

lemma add_booking_inserts:
  "d_in < d_out \<Longrightarrow> get_room_by_number s rn = Some r
     \<Longrightarrow> is_room_available s rn d_in d_out None
     \<Longrightarrow> new_id \<notin> set (map booking_id (bookings s)) \<Longrightarrow>
      add_booking s new_id cust rn d_in d_out st
        = Inr (s\<lparr>bookings := bookings s @
                   [\<lparr>booking_id = new_id, customer_id = cust, booking_room = rn,
                     check_in_date = d_in, check_out_date = d_out,
                     status = st, price_per_night = price r\<rparr>]\<rparr>,
               True, ''Booking '' @ new_id @ '' confirmed.'')"
  by (simp add: add_booking_def get_room_price_def)

text \<open>
  Claim C5. \<open>add_booking\<close> applies its checks in order and a failed check writes nothing:
  a check-in date not before the check-out date fails with the message for an invalid date
  range; otherwise a room that does not exist fails with \<^verbatim>\<open>Room not found.\<close>; otherwise a
  room that is not available for the dates fails with the message that it is already
  booked. On success exactly one booking is added to the table, with status Confirmed
  and with the room's current price as its price per night, and the rooms table
  (so every room status) is unchanged.
\<close>

theorem add_booking_contract:

  "(d_in \<ge> d_out \<longrightarrow>
      add_booking s new_id cust rn d_in d_out ''Confirmed''
        = Inr (s, False, ''Check-out date must be after check-in date.''))
   \<and> (d_in < d_out \<and> get_room_by_number s rn = None \<longrightarrow>
      add_booking s new_id cust rn d_in d_out ''Confirmed''
        = Inr (s, False, ''Room not found.''))
   \<and> (d_in < d_out \<and> get_room_by_number s rn \<noteq> None
        \<and> \<not> is_room_available s rn d_in d_out None \<longrightarrow>
      add_booking s new_id cust rn d_in d_out ''Confirmed''
        = Inr (s, False, ''Room '' @ rn @ '' is already booked or occupied during this period.''))
   \<and> (\<forall>r. d_in < d_out \<and> get_room_by_number s rn = Some r
        \<and> is_room_available s rn d_in d_out None
        \<and> new_id \<notin> set (map booking_id (bookings s)) \<longrightarrow>
      add_booking s new_id cust rn d_in d_out ''Confirmed''
        = Inr (s\<lparr>bookings := bookings s @
                   [\<lparr>booking_id = new_id, customer_id = cust, booking_room = rn,
                     check_in_date = d_in, check_out_date = d_out,
                     status = ''Confirmed'', price_per_night = price r\<rparr>]\<rparr>,
               True, ''Booking '' @ new_id @ '' confirmed.''))
   \<and> (\<forall>s' msg. add_booking s new_id cust rn d_in d_out ''Confirmed'' = Inr (s', True, msg) \<longrightarrow>
        rooms s' = rooms s
        \<and> (\<exists>r. get_room_by_number s rn = Some r
             \<and> bookings s' = bookings s @
                   [\<lparr>booking_id = new_id, customer_id = cust, booking_room = rn,
                     check_in_date = d_in, check_out_date = d_out,
                     status = ''Confirmed'', price_per_night = price r\<rparr>]))"
  (is "?A \<and> ?B \<and> ?C \<and> ?D \<and> ?E")
proof -
  have a: ?A by (intro impI add_booking_invalid_dates)
  have b: ?B using add_booking_room_not_found[of d_in d_out s rn] by blast
  have c: ?C using add_booking_room_unavailable[of d_in d_out s rn] by blast
  have d: ?D using add_booking_inserts[of d_in d_out s rn _ new_id] by blast
  have e: ?E
  proof (intro allI impI)
    fix s' msg
    assume ok: "add_booking s new_id cust rn d_in d_out ''Confirmed'' = Inr (s', True, msg)"
    from add_booking_success(2)[OF ok] obtain r where r: "get_room_by_number s rn = Some r"
      by blast
    have "get_room_price s rn = price r" using r by (simp add: get_room_price_def)
    with add_booking_success(6)[OF ok] r add_booking_success(5)[OF ok]
    show "rooms s' = rooms s
        \<and> (\<exists>r. get_room_by_number s rn = Some r
             \<and> bookings s' = bookings s @
                   [\<lparr>booking_id = new_id, customer_id = cust, booking_room = rn,
                     check_in_date = d_in, check_out_date = d_out,
                     status = ''Confirmed'', price_per_night = price r\<rparr>])"
      by simp
  qed
  from a b c d e show ?thesis by (intro conjI)
qed

text \<open>The three failures and the success, on room 101 booked from day 10 to day 12.\<close>

theorem add_booking_contract_witness:
  "add_booking demo_store ''B50002'' ''C1001'' ''101'' 13 13 ''Confirmed''
     = Inr (demo_store, False, ''Check-out date must be after check-in date.'')
   \<and> add_booking demo_store ''B50002'' ''C1001'' ''999'' 12 14 ''Confirmed''
     = Inr (demo_store, False, ''Room not found.'')
   \<and> add_booking demo_store ''B50002'' ''C1001'' ''101'' 11 13 ''Confirmed''
     = Inr (demo_store, False, ''Room 101 is already booked or occupied during this period.'')
   \<and> add_booking demo_store ''B50002'' ''C1001'' ''101'' 12 14 ''Confirmed''
     = Inr (demo_store\<lparr>bookings := bookings demo_store @
                   [\<lparr>booking_id = ''B50002'', customer_id = ''C1001'', booking_room = ''101'',
                     check_in_date = 12, check_out_date = 14,
                     status = ''Confirmed'', price_per_night = 100\<rparr>]\<rparr>,
            True, ''Booking B50002 confirmed.'')"
proof -
  have r: "get_room_by_number demo_store ''101'' = Some \<lparr>room_number = ''101'', room_type = ''Standard'', price = 100, room_status = ''Available''\<rparr>"
    "get_room_by_number demo_store ''999'' = None"
    by (simp_all add: demo_store_def get_room_by_number_def)
  have a: "\<not> is_room_available demo_store ''101'' 11 13 None"
    "is_room_available demo_store ''101'' 12 14 None"
    by (simp_all add: demo_store_def is_room_available_def overlap_count_def blocks_def)
  have i: "''B50002'' \<notin> set (map booking_id (bookings demo_store))"
    by (simp add: demo_store_def)
  note c = add_booking_contract[where s = demo_store and new_id = "''B50002''" and cust = "''C1001''"]
  have 1: "add_booking demo_store ''B50002'' ''C1001'' ''101'' 13 13 ''Confirmed''
     = Inr (demo_store, False, ''Check-out date must be after check-in date.'')"
    using c[where rn = "''101''" and d_in = 13 and d_out = 13, THEN conjunct1] by simp
  have 2: "add_booking demo_store ''B50002'' ''C1001'' ''999'' 12 14 ''Confirmed''
     = Inr (demo_store, False, ''Room not found.'')"
    using c[where rn = "''999''" and d_in = 12 and d_out = 14, THEN conjunct2, THEN conjunct1] r(2) by simp
  have 3: "add_booking demo_store ''B50002'' ''C1001'' ''101'' 11 13 ''Confirmed''
     = Inr (demo_store, False, ''Room 101 is already booked or occupied during this period.'')"
    using c[where rn = "''101''" and d_in = 11 and d_out = 13, THEN conjunct2, THEN conjunct2, THEN conjunct1]
      r(1) a(1) by simp
  have 4: "add_booking demo_store ''B50002'' ''C1001'' ''101'' 12 14 ''Confirmed''
          = Inr (demo_store\<lparr>bookings := bookings demo_store @
                   [\<lparr>booking_id = ''B50002'', customer_id = ''C1001'', booking_room = ''101'',
                     check_in_date = 12, check_out_date = 14,
                     status = ''Confirmed'', price_per_night = 100\<rparr>]\<rparr>, True, ''Booking B50002 confirmed.'')"
    using c[where rn = "''101''" and d_in = 12 and d_out = 14,
        THEN conjunct2, THEN conjunct2, THEN conjunct2, THEN conjunct1, THEN spec, THEN mp, OF conjI[OF _ conjI[OF r(1) conjI[OF a(2) i]]]]
    by simp
  from 1 2 3 4 show ?thesis by (intro conjI)
qed
section \<open>The transitions of a booking\<close>

lemma get_booking_by_id_update_room_status [simp]:
  "get_booking_by_id (update_room_status s rn st) bid = get_booking_by_id s bid"
  by (simp add: get_booking_by_id_def)

lemma map_option_find_cong:
  assumes "\<And>x. P x \<Longrightarrow> f x = g x"
  shows "map_option f (find P xs) = map_option g (find P xs)"
  using assms by (induction xs) auto

lemma get_booking_by_id_set_booking_status:
  "get_booking_by_id (set_booking_status s bid st) bid
     = map_option (\<lambda>b. b\<lparr>status := st\<rparr>) (get_booking_by_id s bid)"
proof -
  have "find (\<lambda>b. booking_id b = bid)
          (map (\<lambda>b. if booking_id b = bid then b\<lparr>status := st\<rparr> else b) (bookings s))
        = map_option (\<lambda>b. if booking_id b = bid then b\<lparr>status := st\<rparr> else b)
            (find (\<lambda>b. booking_id b = bid) (bookings s))"
    by (rule find_map_same_key) simp
  also have "\<dots> = map_option (\<lambda>b. b\<lparr>status := st\<rparr>) (find (\<lambda>b. booking_id b = bid) (bookings s))"
    by (rule map_option_find_cong) simp
  finally show ?thesis by (simp add: get_booking_by_id_def set_booking_status_def)
qed

lemma check_in_result:
  assumes "get_booking_by_id s bid = Some b"
  shows "check_in s bid =
     (if status b = ''Confirmed''
      then (update_room_status (set_booking_status s bid ''CheckedIn'') (booking_room b) ''Occupied'', True)
      else (s, False))"
  using assms by (simp add: check_in_def)

lemma check_out_result:
  assumes "get_booking_by_id s bid = Some b"
  shows "check_out s bid =
     (if status b = ''CheckedIn''
      then (update_room_status (set_booking_status s bid ''CheckedOut'') (booking_room b) ''Available'', True)
      else (s, False))"
  using assms by (simp add: check_out_def)

lemma cancel_booking_result:
  assumes "get_booking_by_id s bid = Some b"
  shows "cancel_booking s bid =
     (if status b = ''Confirmed'' then (set_booking_status s bid ''Cancelled'', True) else (s, False))"
  using assms by (simp add: cancel_booking_def)

text \<open>
  Claim C6. For every stored booking, \<open>check_in\<close> succeeds exactly when its status is
  Confirmed, \<open>check_out\<close> exactly when it is CheckedIn, and \<open>cancel_booking\<close> exactly when
  it is Confirmed. In every other case the operation returns \<^verbatim>\<open>False\<close> and the store,
  so the status of the booking, is unchanged; a success sets the status to CheckedIn,
  CheckedOut and Cancelled. In particular check-in of a Cancelled booking, check-out of
  a Confirmed booking and cancellation of a CheckedIn booking fail.
\<close>

theorem transitions_contract:
  assumes "get_booking_by_id s bid = Some b"
  shows "(snd (check_in s bid) \<longleftrightarrow> status b = ''Confirmed'')
    \<and> (snd (check_out s bid) \<longleftrightarrow> status b = ''CheckedIn'')
    \<and> (snd (cancel_booking s bid) \<longleftrightarrow> status b = ''Confirmed'')
    \<and> (\<not> snd (check_in s bid) \<longrightarrow> fst (check_in s bid) = s)
    \<and> (\<not> snd (check_out s bid) \<longrightarrow> fst (check_out s bid) = s)
    \<and> (\<not> snd (cancel_booking s bid) \<longrightarrow> fst (cancel_booking s bid) = s)
    \<and> (snd (check_in s bid) \<longrightarrow>
          get_booking_by_id (fst (check_in s bid)) bid = Some (b\<lparr>status := ''CheckedIn''\<rparr>))
    \<and> (snd (check_out s bid) \<longrightarrow>
          get_booking_by_id (fst (check_out s bid)) bid = Some (b\<lparr>status := ''CheckedOut''\<rparr>))
    \<and> (snd (cancel_booking s bid) \<longrightarrow>
          get_booking_by_id (fst (cancel_booking s bid)) bid = Some (b\<lparr>status := ''Cancelled''\<rparr>))
    \<and> (status b = ''Cancelled'' \<longrightarrow> check_in s bid = (s, False))
    \<and> (status b = ''Confirmed'' \<longrightarrow> check_out s bid = (s, False))
    \<and> (status b = ''CheckedIn'' \<longrightarrow> cancel_booking s bid = (s, False))"
proof -
  note r = check_in_result[OF assms] check_out_result[OF assms] cancel_booking_result[OF assms]
  have 1: "snd (check_in s bid) \<longleftrightarrow> status b = ''Confirmed''" by (simp add: r)
  have 2: "snd (check_out s bid) \<longleftrightarrow> status b = ''CheckedIn''" by (simp add: r)
  have 3: "snd (cancel_booking s bid) \<longleftrightarrow> status b = ''Confirmed''" by (simp add: r)
  have 4: "\<not> snd (check_in s bid) \<longrightarrow> fst (check_in s bid) = s" by (simp add: r)
  have 5: "\<not> snd (check_out s bid) \<longrightarrow> fst (check_out s bid) = s" by (simp add: r)
  have 6: "\<not> snd (cancel_booking s bid) \<longrightarrow> fst (cancel_booking s bid) = s" by (simp add: r)
  have 7: "snd (check_in s bid) \<longrightarrow>
          get_booking_by_id (fst (check_in s bid)) bid = Some (b\<lparr>status := ''CheckedIn''\<rparr>)"
    by (simp add: r get_booking_by_id_set_booking_status assms)
  have 8: "snd (check_out s bid) \<longrightarrow>
          get_booking_by_id (fst (check_out s bid)) bid = Some (b\<lparr>status := ''CheckedOut''\<rparr>)"
    by (simp add: r get_booking_by_id_set_booking_status assms)
  have 9: "snd (cancel_booking s bid) \<longrightarrow>
          get_booking_by_id (fst (cancel_booking s bid)) bid = Some (b\<lparr>status := ''Cancelled''\<rparr>)"
    by (simp add: r get_booking_by_id_set_booking_status assms)
  have 10: "status b = ''Cancelled'' \<longrightarrow> check_in s bid = (s, False)" by (simp add: r)
  have 11: "status b = ''Confirmed'' \<longrightarrow> check_out s bid = (s, False)" by (simp add: r)
  have 12: "status b = ''CheckedIn'' \<longrightarrow> cancel_booking s bid = (s, False)" by (simp add: r)
  from 1 2 3 4 5 6 7 8 9 10 11 12 show ?thesis by (intro conjI)
qed

text \<open>The confirmed booking of the small hotel can be checked in or cancelled, not
  checked out.\<close>

theorem transitions_contract_witness:
  "get_booking_by_id demo_store ''B50001'' = Some demo_booking
   \<and> snd (check_in demo_store ''B50001'')
   \<and> \<not> snd (check_out demo_store ''B50001'')
   \<and> fst (check_out demo_store ''B50001'') = demo_store
   \<and> snd (cancel_booking demo_store ''B50001'')
   \<and> get_booking_by_id (fst (check_in demo_store ''B50001'')) ''B50001''
        = Some (demo_booking\<lparr>status := ''CheckedIn''\<rparr>)"
proof -
  have h: "get_booking_by_id demo_store ''B50001'' = Some demo_booking"
    by (simp add: demo_store_def demo_booking_def get_booking_by_id_def)
  have st: "status demo_booking = ''Confirmed''" by (simp add: demo_booking_def)
  note c = transitions_contract[OF h]
  have 1: "snd (check_in demo_store ''B50001'')" using c[THEN conjunct1] st by simp
  have 2: "\<not> snd (check_out demo_store ''B50001'')"
    using c[THEN conjunct2, THEN conjunct1] st by simp
  have 3: "snd (cancel_booking demo_store ''B50001'')"
    using c[THEN conjunct2, THEN conjunct2, THEN conjunct1] st by simp
  have 4: "fst (check_out demo_store ''B50001'') = demo_store"
    using c[THEN conjunct2, THEN conjunct2, THEN conjunct2, THEN conjunct2, THEN conjunct1] 2 by simp
  have 5: "get_booking_by_id (fst (check_in demo_store ''B50001'')) ''B50001''
        = Some (demo_booking\<lparr>status := ''CheckedIn''\<rparr>)"
    using c[THEN conjunct2, THEN conjunct2, THEN conjunct2, THEN conjunct2, THEN conjunct2,
        THEN conjunct2, THEN conjunct1] 1 by simp
  from h 1 2 4 3 5 show ?thesis by (intro conjI)
qed
section \<open>Updating a booking\<close>

lemma update_booking_passes:
  assumes "get_booking_by_id s bid = Some b" "ci < co" "is_room_available s rn ci co (Some bid)"
  shows "\<exists>s'. update_booking s bid rn ci co st = (s', True, ''Booking '' @ bid @ '' successfully updated.'')"
  using assms by (simp add: update_booking_def Let_def)

lemma update_booking_blocked:
  assumes "get_booking_by_id s bid = Some b" "ci < co" "\<not> is_room_available s rn ci co (Some bid)"
  shows "update_booking s bid rn ci co st
           = (s, False, ''Room '' @ rn @ '' is not available for the new dates/room.'')"
  using assms by (simp add: update_booking_def)

lemma update_booking_row:
  assumes ok: "update_booking s bid rn ci co st = (s', True, msg)"
    and b: "get_booking_by_id s bid = Some b"
  shows "get_booking_by_id s' bid
           = Some (b\<lparr>booking_room := rn, check_in_date := ci, check_out_date := co,
                     status := st, price_per_night := get_room_price s rn\<rparr>)"
proof -
  let ?upd = "\<lambda>b. b\<lparr>booking_room := rn, check_in_date := ci, check_out_date := co,
                     status := st, price_per_night := get_room_price s rn\<rparr>"
  have "find (\<lambda>b. booking_id b = bid) (map (\<lambda>b. if booking_id b = bid then ?upd b else b) (bookings s))
        = map_option (\<lambda>b. if booking_id b = bid then ?upd b else b)
            (find (\<lambda>b. booking_id b = bid) (bookings s))"
    by (rule find_map_same_key) simp
  also have "\<dots> = map_option ?upd (find (\<lambda>b. booking_id b = bid) (bookings s))"
    by (rule map_option_find_cong) simp
  finally show ?thesis
    using b by (simp add: get_booking_by_id_def update_booking_success(4)[OF ok])
qed

lemma update_booking_rooms_prices:
  assumes ok: "update_booking s bid rn ci co st = (s', True, msg)"
  shows "get_room_price s' x = get_room_price s x"
proof -
  have rooms_only: "get_room_price (t\<lparr>bookings := bs\<rparr>) x = get_room_price t x" for t bs
    by (simp add: get_room_price_def get_room_by_number_def)
  from ok show ?thesis
    by (auto simp: update_booking_def Let_def rooms_only split: option.splits if_splits)
qed

section \<open>The price of a booking\<close>

lemma get_booking_by_id_fresh:
  assumes "new_id \<notin> set (map booking_id bs)" "booking_id n = new_id"
  shows "find (\<lambda>b. booking_id b = new_id) (bs @ [n]) = Some n"
  using assms by (induction bs) auto

lemma bookings_update_room_details [simp]:
  "bookings (fst (update_room_details s rn ty p rs)) = bookings s"
  by (simp add: update_room_details_def)

lemma prices_set_booking_status [simp]:
  "map price_per_night (bookings (set_booking_status s bid st)) = map price_per_night (bookings s)"
  by (simp add: set_booking_status_def comp_def if_distrib[of price_per_night] cong: if_cong)

lemma check_in_prices: "map price_per_night (bookings (fst (check_in s bid))) = map price_per_night (bookings s)"
  by (simp add: check_in_def split: option.splits)

lemma check_out_prices: "map price_per_night (bookings (fst (check_out s bid))) = map price_per_night (bookings s)"
  by (simp add: check_out_def split: option.splits)

lemma cancel_booking_prices:
  "map price_per_night (bookings (fst (cancel_booking s bid))) = map price_per_night (bookings s)"
  by (simp add: cancel_booking_def split: option.splits)

lemma filter_other_rows:
  assumes "\<And>b. booking_id (f b) = booking_id b"
  shows "filter (\<lambda>b. booking_id b \<noteq> bid) (map (\<lambda>b. if booking_id b = bid then f b else b) bs)
           = filter (\<lambda>b. booking_id b \<noteq> bid) bs"
  using assms by (induction bs) auto

text \<open>
  Claim C9. A successful \<open>update_booking\<close> sets the price per night of the booking to the
  current price of the room it now names, as \<open>get_room_price\<close> reads it at that moment
  (the price is taken again on every update), and it leaves every other booking as it
  is. A booking made by \<open>add_booking\<close> holds the price read at its creation, and the
  bookings already stored are left as they are. Changing the room's price afterwards
  (\<open>update_room_details\<close>) leaves every booking as it is, and \<open>check_in\<close>, \<open>check_out\<close> and
  \<open>cancel_booking\<close> keep the price per night of every booking. So no price per night is
  ever written but by the update of that very booking.
\<close>

theorem price_snapshot:
  "(\<forall>s' msg. update_booking s bid rn ci co st = (s', True, msg) \<longrightarrow>
       map_option price_per_night (get_booking_by_id s' bid) = Some (get_room_price s rn)
       \<and> get_room_price s' rn = get_room_price s rn
       \<and> (\<forall>r. get_room_by_number s rn = Some r \<longrightarrow>
             map_option price_per_night (get_booking_by_id s' bid) = Some (price r))
       \<and> bookings s' =
             map (\<lambda>b. if booking_id b = bid
                       then b\<lparr>booking_room := rn, check_in_date := ci, check_out_date := co,
                              status := st, price_per_night := get_room_price s rn\<rparr>
                       else b) (bookings s)
       \<and> filter (\<lambda>b. booking_id b \<noteq> bid) (bookings s')
             = filter (\<lambda>b. booking_id b \<noteq> bid) (bookings s))
   \<and> (\<forall>s' msg. add_booking s new_id cust rn ci co st = Inr (s', True, msg) \<longrightarrow>
       map_option price_per_night (get_booking_by_id s' new_id) = Some (get_room_price s rn)
       \<and> (\<forall>room ty p rs. get_booking_by_id (fst (update_room_details s' room ty p rs)) new_id
                           = get_booking_by_id s' new_id)
       \<and> bookings s' = bookings s @
             [\<lparr>booking_id = new_id, customer_id = cust, booking_room = rn,
               check_in_date = ci, check_out_date = co,
               status = st, price_per_night = get_room_price s rn\<rparr>])
   \<and> bookings (fst (update_room_details s room ty p rs)) = bookings s
   \<and> map price_per_night (bookings (fst (check_in s bid))) = map price_per_night (bookings s)
   \<and> map price_per_night (bookings (fst (check_out s bid))) = map price_per_night (bookings s)
   \<and> map price_per_night (bookings (fst (cancel_booking s bid))) = map price_per_night (bookings s)"
  (is "?U \<and> ?A \<and> ?D \<and> ?I \<and> ?O \<and> ?C")
proof -
  have u: ?U
  proof (intro allI impI)
    fix s' msg
    assume ok: "update_booking s bid rn ci co st = (s', True, msg)"
    from update_booking_success(2)[OF ok] obtain b where b: "get_booking_by_id s bid = Some b"
      by blast
    have row: "map_option price_per_night (get_booking_by_id s' bid) = Some (get_room_price s rn)"
      by (simp add: update_booking_row[OF ok b])
    have same: "get_room_price s' rn = get_room_price s rn"
      by (rule update_booking_rooms_prices[OF ok])
    have room: "\<forall>r. get_room_by_number s rn = Some r \<longrightarrow>
             map_option price_per_night (get_booking_by_id s' bid) = Some (price r)"
    proof (intro allI impI)
      fix r assume "get_room_by_number s rn = Some r"
      then have "get_room_price s rn = price r" by (simp add: get_room_price_def)
      with row show "map_option price_per_night (get_booking_by_id s' bid) = Some (price r)"
        by simp
    qed
    note rows = update_booking_success(4)[OF ok]
    have others: "filter (\<lambda>b. booking_id b \<noteq> bid) (bookings s')
             = filter (\<lambda>b. booking_id b \<noteq> bid) (bookings s)"
      unfolding rows by (rule filter_other_rows) simp
    from row same room rows others
    show "map_option price_per_night (get_booking_by_id s' bid) = Some (get_room_price s rn)
       \<and> get_room_price s' rn = get_room_price s rn
       \<and> (\<forall>r. get_room_by_number s rn = Some r \<longrightarrow>
             map_option price_per_night (get_booking_by_id s' bid) = Some (price r))
       \<and> bookings s' =
             map (\<lambda>b. if booking_id b = bid
                       then b\<lparr>booking_room := rn, check_in_date := ci, check_out_date := co,
                              status := st, price_per_night := get_room_price s rn\<rparr>
                       else b) (bookings s)
       \<and> filter (\<lambda>b. booking_id b \<noteq> bid) (bookings s')
             = filter (\<lambda>b. booking_id b \<noteq> bid) (bookings s)"
      by (intro conjI)
  qed
  have a: ?A
  proof (intro allI impI)
    fix s' msg
    assume ok: "add_booking s new_id cust rn ci co st = Inr (s', True, msg)"
    note rows = add_booking_success(6)[OF ok]
    have new: "get_booking_by_id s' new_id =
           Some \<lparr>booking_id = new_id, customer_id = cust, booking_room = rn,
                 check_in_date = ci, check_out_date = co,
                 status = st, price_per_night = get_room_price s rn\<rparr>"
      unfolding get_booking_by_id_def rows
      by (rule get_booking_by_id_fresh[OF add_booking_success(4)[OF ok]]) simp
    have 1: "map_option price_per_night (get_booking_by_id s' new_id) = Some (get_room_price s rn)"
      by (simp add: new)
    have 2: "\<forall>room ty p rs. get_booking_by_id (fst (update_room_details s' room ty p rs)) new_id
                           = get_booking_by_id s' new_id"
      by (simp add: get_booking_by_id_def)
    from 1 2 rows
    show "map_option price_per_night (get_booking_by_id s' new_id) = Some (get_room_price s rn)
       \<and> (\<forall>room ty p rs. get_booking_by_id (fst (update_room_details s' room ty p rs)) new_id
                           = get_booking_by_id s' new_id)
       \<and> bookings s' = bookings s @
             [\<lparr>booking_id = new_id, customer_id = cust, booking_room = rn,
               check_in_date = ci, check_out_date = co,
               status = st, price_per_night = get_room_price s rn\<rparr>]"
      by (intro conjI)
  qed
  have d: ?D by simp
  from u a d check_in_prices check_out_prices cancel_booking_prices show ?thesis
    by (intro conjI)
qed

text \<open>A booking made at price 100 keeps 100 when the room goes to 120; an update of the
  old booking in the repriced hotel takes 120. Moving one of two bookings to room 102
  gives it the price 150 and leaves the other at 100.\<close>

theorem price_snapshot_witness:
  "(\<exists>s' msg. add_booking demo_store ''B50002'' ''C1001'' ''101'' 12 14 ''Confirmed'' = Inr (s', True, msg)
      \<and> map_option price_per_night
           (get_booking_by_id (fst (update_room_details s' ''101'' ''Standard'' 120 ''Available'')) ''B50002'')
         = Some 100)
   \<and> (\<exists>s' msg. update_booking repriced_hotel ''B50001'' ''101'' 10 12 ''Confirmed'' = (s', True, msg)
      \<and> price_per_night demo_booking = 100
      \<and> map_option price_per_night (get_booking_by_id s' ''B50001'') = Some 120)
   \<and> (\<exists>s' msg. update_booking late_cancel_store ''B50001'' ''102'' 10 12 ''Confirmed'' = (s', True, msg)
      \<and> map price_per_night (bookings late_cancel_store) = [100, 100]
      \<and> map price_per_night (bookings s') = [150, 100])"
proof -
  have "\<exists>s' msg. add_booking demo_store ''B50002'' ''C1001'' ''101'' 12 14 ''Confirmed'' = Inr (s', True, msg)"
    by (simp add: demo_store_def engine_defs)
  then obtain s1 msg1 where
    ok1: "add_booking demo_store ''B50002'' ''C1001'' ''101'' 12 14 ''Confirmed'' = Inr (s1, True, msg1)"
    by blast
  have p1: "get_room_price demo_store ''101'' = 100"
    by (simp add: demo_store_def get_room_price_def get_room_by_number_def)
  from price_snapshot[where s = demo_store, THEN conjunct2, THEN conjunct1, rule_format, OF ok1]
  have "map_option price_per_night
           (get_booking_by_id (fst (update_room_details s1 ''101'' ''Standard'' 120 ''Available'')) ''B50002'')
         = Some 100"
    by (simp add: p1)
  with ok1 have first: "\<exists>s' msg. add_booking demo_store ''B50002'' ''C1001'' ''101'' 12 14 ''Confirmed'' = Inr (s', True, msg)
      \<and> map_option price_per_night
           (get_booking_by_id (fst (update_room_details s' ''101'' ''Standard'' 120 ''Available'')) ''B50002'')
         = Some 100"
    by blast
  have "\<exists>s' msg. update_booking repriced_hotel ''B50001'' ''101'' 10 12 ''Confirmed'' = (s', True, msg)"
    by (simp add: repriced_hotel_def update_room_details_def demo_store_def engine_defs)
  then obtain s2 msg2 where
    ok2: "update_booking repriced_hotel ''B50001'' ''101'' 10 12 ''Confirmed'' = (s2, True, msg2)"
    by blast
  have p2: "get_room_price repriced_hotel ''101'' = 120"
    by (simp add: repriced_hotel_def update_room_details_def demo_store_def get_room_price_def
        get_room_by_number_def)
  from price_snapshot[where s = repriced_hotel, THEN conjunct1, rule_format, OF ok2]
  have "map_option price_per_night (get_booking_by_id s2 ''B50001'') = Some 120"
    by (simp add: p2)
  with ok2 have second: "\<exists>s' msg. update_booking repriced_hotel ''B50001'' ''101'' 10 12 ''Confirmed'' = (s', True, msg)
      \<and> price_per_night demo_booking = 100
      \<and> map_option price_per_night (get_booking_by_id s' ''B50001'') = Some 120"
    by (simp add: demo_booking_def)
  have "\<exists>s' msg. update_booking late_cancel_store ''B50001'' ''102'' 10 12 ''Confirmed'' = (s', True, msg)"
    by (simp add: late_cancel_store_def demo_store_def engine_defs)
  then obtain s3 msg3 where
    ok3: "update_booking late_cancel_store ''B50001'' ''102'' 10 12 ''Confirmed'' = (s3, True, msg3)"
    by blast
  have p3: "get_room_price late_cancel_store ''102'' = 150"
    by (simp add: late_cancel_store_def demo_store_def get_room_price_def get_room_by_number_def)
  note rows3 = price_snapshot[where s = late_cancel_store, THEN conjunct1, rule_format, OF ok3,
      THEN conjunct2, THEN conjunct2, THEN conjunct2, THEN conjunct1]
  have new3: "map price_per_night (bookings s3) = [150, 100]"
    unfolding rows3 p3 by (simp add: late_cancel_store_def)
  have old3: "map price_per_night (bookings late_cancel_store) = [100, 100]"
    by (simp add: late_cancel_store_def)
  have third: "\<exists>s' msg. update_booking late_cancel_store ''B50001'' ''102'' 10 12 ''Confirmed'' = (s', True, msg)
      \<and> map price_per_night (bookings late_cancel_store) = [100, 100]
      \<and> map price_per_night (bookings s') = [150, 100]"
    by (intro exI[of _ s3] exI[of _ msg3] conjI ok3 old3 new3)
  from first second third show ?thesis by (intro conjI)
qed
section \<open>Updating a booking to a room that does not exist\<close>

lemma ghost_room_store_reached: "run_ops demo_store ghost_room_ops = Some ghost_room_store"
  by (simp add: demo_store_def ghost_room_ops_def ghost_room_store_def engine_defs)

lemma empty_room_available:
  "\<forall>x\<in>set (bookings s). booking_room x \<noteq> rn \<Longrightarrow> is_room_available s rn ci co ig"
  by (simp add: is_room_available_def overlap_count_zero blocks_def)

text \<open>
  Claim C10, amended. \<open>update_booking\<close> never checks that the new room exists. For every
  stored booking, every range of dates with the check-in before the check-out and every
  room number that no room has, the update succeeds whenever the availability check
  passes, and it then stores the booking on that room number with the price per night 0.
  The check passes when no booking is stored on that room number. When it does not pass,
  the failure is the one of an unavailable room; no failure ever says that the room is
  missing.
\<close>

theorem update_booking_missing_room:
  assumes "get_booking_by_id s bid = Some b" "ci < co" "get_room_by_number s rn = None"
  shows "(is_room_available s rn ci co (Some bid) \<longrightarrow>
           (\<exists>s'. update_booking s bid rn ci co st
                    = (s', True, ''Booking '' @ bid @ '' successfully updated.'')
                \<and> get_booking_by_id s' bid
                    = Some (b\<lparr>booking_room := rn, check_in_date := ci, check_out_date := co,
                              status := st, price_per_night := 0\<rparr>)))
    \<and> ((\<forall>x\<in>set (bookings s). booking_room x \<noteq> rn) \<longrightarrow> is_room_available s rn ci co (Some bid))
    \<and> (\<not> is_room_available s rn ci co (Some bid) \<longrightarrow>
           update_booking s bid rn ci co st
             = (s, False, ''Room '' @ rn @ '' is not available for the new dates/room.''))"
proof (intro conjI impI)
  assume av: "is_room_available s rn ci co (Some bid)"
  from update_booking_passes[OF assms(1,2) av] obtain s' where
    ok: "update_booking s bid rn ci co st = (s', True, ''Booking '' @ bid @ '' successfully updated.'')"
    by blast
  have "get_room_price s rn = 0" using assms(3) by (simp add: get_room_price_def)
  with update_booking_row[OF ok assms(1)] ok
  show "\<exists>s'. update_booking s bid rn ci co st
                    = (s', True, ''Booking '' @ bid @ '' successfully updated.'')
                \<and> get_booking_by_id s' bid
                    = Some (b\<lparr>booking_room := rn, check_in_date := ci, check_out_date := co,
                              status := st, price_per_night := 0\<rparr>)"
    by simp
next
  assume "\<forall>x\<in>set (bookings s). booking_room x \<noteq> rn"
  then show "is_room_available s rn ci co (Some bid)" by (rule empty_room_available)
next
  assume "\<not> is_room_available s rn ci co (Some bid)"
  with assms(1,2) show "update_booking s bid rn ci co st
             = (s, False, ''Room '' @ rn @ '' is not available for the new dates/room.'')"
    by (rule update_booking_blocked)
qed

text \<open>Moving the booking of the small hotel to room 999.\<close>

theorem update_booking_missing_room_witness:
  "get_booking_by_id demo_store ''B50001'' = Some demo_booking \<and> (10::int) < 12
   \<and> get_room_by_number demo_store ''999'' = None
   \<and> (\<exists>s'. update_booking demo_store ''B50001'' ''999'' 10 12 ''Confirmed''
              = (s', True, ''Booking B50001 successfully updated.'')
          \<and> map_option price_per_night (get_booking_by_id s' ''B50001'') = Some 0
          \<and> map_option booking_room (get_booking_by_id s' ''B50001'') = Some ''999'')"
proof -
  have h: "get_booking_by_id demo_store ''B50001'' = Some demo_booking"
    by (simp add: demo_store_def demo_booking_def get_booking_by_id_def)
  have d: "(10::int) < 12" by simp
  have r: "get_room_by_number demo_store ''999'' = None"
    by (simp add: demo_store_def get_room_by_number_def)
  have e: "\<forall>x\<in>set (bookings demo_store). booking_room x \<noteq> ''999''"
    by (simp add: demo_store_def)
  note c = update_booking_missing_room[OF h d r, where st = "''Confirmed''"]
  from c[THEN conjunct2, THEN conjunct1, THEN mp, OF e]
  have av: "is_room_available demo_store ''999'' 10 12 (Some ''B50001'')" .
  from c[THEN conjunct1, THEN mp, OF av] obtain s' where
    "update_booking demo_store ''B50001'' ''999'' 10 12 ''Confirmed''
       = (s', True, ''Booking '' @ ''B50001'' @ '' successfully updated.'')"
    "get_booking_by_id s' ''B50001''
       = Some (demo_booking\<lparr>booking_room := ''999'', check_in_date := 10, check_out_date := 12,
                             status := ''Confirmed'', price_per_night := 0\<rparr>)"
    by blast
  then have "\<exists>s'. update_booking demo_store ''B50001'' ''999'' 10 12 ''Confirmed''
              = (s', True, ''Booking B50001 successfully updated.'')
          \<and> map_option price_per_night (get_booking_by_id s' ''B50001'') = Some 0
          \<and> map_option booking_room (get_booking_by_id s' ''B50001'') = Some ''999''"
    by simp
  with h d r show ?thesis by (intro conjI)
qed

text \<open>
  As first stated the claim had the update succeed for every stored booking, the
  availability check passing since no booking is on a room that does not exist. A
  booking can be on such a room, put there by an earlier update, and it then blocks the
  next one: after \<open>ghost_room_ops\<close> the booking B50001 holds room 999 for the days 10 to 12
  and moving B50002 there fails.
\<close>

theorem update_booking_missing_room_counterexample:
  "run_ops demo_store ghost_room_ops = Some ghost_room_store
   \<and> get_booking_by_id ghost_room_store ''B50002'' \<noteq> None
   \<and> (10::int) < 12
   \<and> get_room_by_number ghost_room_store ''999'' = None
   \<and> update_booking ghost_room_store ''B50002'' ''999'' 10 12 ''Confirmed''
       = (ghost_room_store, False, ''Room 999 is not available for the new dates/room.'')"
proof -
  have 1: "get_booking_by_id ghost_room_store ''B50002'' \<noteq> None"
    by (simp add: ghost_room_store_def get_booking_by_id_def)
  have 2: "get_room_by_number ghost_room_store ''999'' = None"
    by (simp add: ghost_room_store_def demo_store_def get_room_by_number_def)
  have 3: "update_booking ghost_room_store ''B50002'' ''999'' 10 12 ''Confirmed''
       = (ghost_room_store, False, ''Room 999 is not available for the new dates/room.'')"
    by (simp add: ghost_room_store_def update_booking_def get_booking_by_id_def
        is_room_available_def overlap_count_def blocks_def)
  from ghost_room_store_reached 1 2 3 show ?thesis by simp
qed

section \<open>Updating a booking to what it already is\<close>

text \<open>
  Claim C3, amended. For every stored booking with a non-empty identifier and its check-in
  before its check-out, \<open>update_booking\<close> with the booking's own room, dates and status
  succeeds exactly when no other active booking of the same room checks out after its
  check-in and checks in before its check-out: the booking itself never blocks the
  update, since the availability check ignores it. So the update succeeds for every
  active booking of a store that has no double booking and only valid dates.
\<close>

theorem update_booking_same_values:
  assumes "get_booking_by_id s bid = Some b" "bid \<noteq> []" "check_in_date b < check_out_date b"
  shows "(fst (snd (update_booking s bid (booking_room b) (check_in_date b) (check_out_date b) (status b)))
          \<longleftrightarrow> \<not> (\<exists>x\<in>set (bookings s). booking_id x \<noteq> bid \<and> booking_room x = booking_room b
                    \<and> active x \<and> check_out_date x > check_in_date b
                    \<and> check_in_date x < check_out_date b))
    \<and> (active b \<and> no_double_booking s \<and> valid_dates s \<longrightarrow>
          fst (snd (update_booking s bid (booking_room b) (check_in_date b) (check_out_date b) (status b))))"
proof -
  let ?others = "\<exists>x\<in>set (bookings s). booking_id x \<noteq> bid \<and> booking_room x = booking_room b
                    \<and> active x \<and> check_out_date x > check_in_date b
                    \<and> check_in_date x < check_out_date b"
  let ?av = "is_room_available s (booking_room b) (check_in_date b) (check_out_date b) (Some bid)"
  let ?ok = "fst (snd (update_booking s bid (booking_room b) (check_in_date b) (check_out_date b) (status b)))"
  have av: "?av \<longleftrightarrow> \<not> ?others"
    using assms(2) by (auto simp: is_room_available_def overlap_count_zero blocks_def active_def)
  have ok: "?ok \<longleftrightarrow> ?av"
  proof (cases ?av)
    case True
    from update_booking_passes[OF assms(1,3) True, of "status b"] True show ?thesis by auto
  next
    case False
    from update_booking_blocked[OF assms(1,3) False, of "status b"] False show ?thesis by simp
  qed
  have inv: "\<not> ?others" if "active b" "no_double_booking s" "valid_dates s"
  proof
    assume ?others
    then obtain x where x: "x \<in> set (bookings s)" "booking_id x \<noteq> bid"
      "booking_room x = booking_room b" "active x"
      "check_out_date x > check_in_date b" "check_in_date x < check_out_date b" by blast
    have bmem: "b \<in> set (bookings s)" "booking_id b = bid"
      using get_booking_by_id_Some[OF assms(1)] by simp_all
    from that(3) x(1) have "check_in_date x < check_out_date x" by (simp add: valid_dates_def)
    with x(5,6) assms(3) have "overlapping x b" by (simp add: overlapping_def)
    moreover have "\<not> overlapping x b"
      using that(2) x(1) bmem(1) x(2,3,4) that(1) bmem(2) by (intro no_double_bookingD[of s]) simp_all
    ultimately show False by simp
  qed
  from av ok inv show ?thesis by blast
qed

lemma rebooked_store_reached: "run_ops demo_store rebooked_ops = Some rebooked_store"
  by (simp add: demo_store_def rebooked_ops_def rebooked_store_def engine_defs)


text \<open>The confirmed booking of the small hotel.\<close>

theorem update_booking_same_values_witness:
  "get_booking_by_id demo_store ''B50001'' = Some demo_booking \<and> ''B50001'' \<noteq> []
   \<and> check_in_date demo_booking < check_out_date demo_booking
   \<and> active demo_booking \<and> no_double_booking demo_store \<and> valid_dates demo_store
   \<and> fst (snd (update_booking demo_store ''B50001'' ''101'' 10 12 ''Confirmed''))"
proof -
  have h: "get_booking_by_id demo_store ''B50001'' = Some demo_booking"
    by (simp add: demo_store_def demo_booking_def get_booking_by_id_def)
  have n: "''B50001'' \<noteq> []" by simp
  have d: "check_in_date demo_booking < check_out_date demo_booking"
    by (simp add: demo_booking_def)
  have a: "active demo_booking" by (simp add: demo_booking_def active_def)
  have i: "no_double_booking demo_store" by (simp add: demo_store_def no_double_booking_def)
  have v: "valid_dates demo_store" by (simp add: demo_store_def valid_dates_def)
  from update_booking_same_values[OF h n d, THEN conjunct2, THEN mp, OF conjI[OF a conjI[OF i v]]]
  have "fst (snd (update_booking demo_store ''B50001'' ''101'' 10 12 ''Confirmed''))"
    by (simp add: demo_booking_def)
  with h n d a i v show ?thesis by (intro conjI)
qed

text \<open>
  As first stated the claim had the update succeed for every stored booking. A Cancelled
  booking does not hold its room, so another booking may take its dates; the update of
  the cancelled booking to its own values is then refused, because the check runs for
  every new status. After \<open>rebooked_ops\<close> B50001 is Cancelled and B50002 holds room 101
  for the same days.
\<close>

theorem update_booking_same_values_counterexample:
  "run_ops demo_store rebooked_ops = Some rebooked_store
   \<and> get_booking_by_id rebooked_store ''B50001''
       = Some \<lparr>booking_id = ''B50001'', customer_id = ''C1000'', booking_room = ''101'',
               check_in_date = 10, check_out_date = 12, status = ''Cancelled'',
               price_per_night = 100\<rparr>
   \<and> update_booking rebooked_store ''B50001'' ''101'' 10 12 ''Cancelled''
       = (rebooked_store, False, ''Room 101 is not available for the new dates/room.'')"
proof -
  have 1: "get_booking_by_id rebooked_store ''B50001''
       = Some \<lparr>booking_id = ''B50001'', customer_id = ''C1000'', booking_room = ''101'',
               check_in_date = 10, check_out_date = 12, status = ''Cancelled'',
               price_per_night = 100\<rparr>"
    by (simp add: rebooked_store_def get_booking_by_id_def)
  have 2: "update_booking rebooked_store ''B50001'' ''101'' 10 12 ''Cancelled''
       = (rebooked_store, False, ''Room 101 is not available for the new dates/room.'')"
    by (simp add: rebooked_store_def update_booking_def get_booking_by_id_def
        is_room_available_def overlap_count_def blocks_def)
  from rebooked_store_reached 1 2 show ?thesis by simp
qed
section \<open>The status of a room\<close>


















section \<open>The report\<close>

lemma report_step_cancelled:
  "cancelled_bookings (report_step fa S E rep b)
     = cancelled_bookings rep + (if counted_cancelled S E b then 1 else 0)"
  by (simp add: report_step_def counted_cancelled_def Let_def)

lemma report_step_occupied:
  "occupied_nights (report_step fa S E rep b) = occupied_nights rep + nights_in_window S E b"
  by (simp add: report_step_def nights_in_window_def Let_def)

lemma foldl_cancelled:
  "cancelled_bookings (foldl (report_step fa S E) rep bs)
     = cancelled_bookings rep + int (length (filter (counted_cancelled S E) bs))"
  by (induction bs arbitrary: rep) (simp_all add: report_step_cancelled)

lemma foldl_occupied:
  "occupied_nights (foldl (report_step fa S E) rep bs)
     = occupied_nights rep + sum_list (map (nights_in_window S E) bs)"
  by (induction bs arbitrary: rep) (simp_all add: report_step_occupied)

lemma get_reports_cancelled:
  "cancelled_bookings (get_reports fa s S E)
     = int (length (filter (counted_cancelled S E) (bookings s)))"
  by (simp add: get_reports_def Let_def foldl_cancelled)

lemma get_reports_occupied:
  "occupied_nights (get_reports fa s S E) = sum_list (map (nights_in_window S E) (bookings s))"
  by (simp add: get_reports_def Let_def foldl_occupied)

lemma get_reports_nights:
  "total_nights (get_reports fa s S E) = int (length (rooms s)) * (E - S)"
  by (simp add: get_reports_def Let_def)

lemma get_reports_rate:
  "occupancy_rate (get_reports fa s S E)
     = (if total_nights (get_reports fa s S E) > 0
        then float_mul fa
               (float_truediv fa (occupied_nights (get_reports fa s S E))
                  (total_nights (get_reports fa s S E))) 100
        else 0)"
  by (simp add: get_reports_def Let_def)

lemma counted_cancelled_valid:
  assumes "check_in_date b < check_out_date b"
  shows "counted_cancelled S E b \<longleftrightarrow>
           status b = ''Cancelled'' \<and> S \<le> check_in_date b \<and> check_in_date b < E"
  using assms by (auto simp: counted_cancelled_def)

lemma late_cancel_store_reached: "run_ops demo_store late_cancel_ops = Some late_cancel_store"
  by (simp add: demo_store_def late_cancel_ops_def late_cancel_store_def engine_defs)

text \<open>
  Claim C8, amended. For every report window from \<open>S\<close> to \<open>E\<close>, \<open>get_reports\<close> counts as
  cancelled exactly the Cancelled bookings whose interval overlaps the window and whose
  check-in date lies from \<open>S\<close> to \<open>E\<close>; when every booking checks in before it checks out
  these are the Cancelled bookings with a check-in date from \<open>S\<close> up to, but not
  including, \<open>E\<close>. The occupied nights are the nights of the Confirmed, CheckedIn and
  CheckedOut bookings inside the window, the total nights are the number of rooms times
  the days of the window, and the occupancy rate is the float division of the occupied
  nights by the total nights, float-multiplied by 100; it is 0 when the total is 0 (or
  negative). This holds whatever the float operations round to.
\<close>

theorem get_reports_contract:
  "cancelled_bookings (get_reports fa s S E)
     = int (length (filter (\<lambda>b. status b = ''Cancelled''
                               \<and> max (check_in_date b) S < min (check_out_date b) E
                               \<and> S \<le> check_in_date b \<and> check_in_date b \<le> E) (bookings s)))
   \<and> (valid_dates s \<longrightarrow>
        cancelled_bookings (get_reports fa s S E)
          = int (length (filter (\<lambda>b. status b = ''Cancelled''
                                    \<and> S \<le> check_in_date b \<and> check_in_date b < E) (bookings s))))
   \<and> occupied_nights (get_reports fa s S E) = sum_list (map (nights_in_window S E) (bookings s))
   \<and> total_nights (get_reports fa s S E) = int (length (rooms s)) * (E - S)
   \<and> occupancy_rate (get_reports fa s S E)
       = (if int (length (rooms s)) * (E - S) > 0
          then float_mul fa
                 (float_truediv fa (sum_list (map (nights_in_window S E) (bookings s)))
                    (int (length (rooms s)) * (E - S))) 100
          else 0)
   \<and> (int (length (rooms s)) * (E - S) \<le> 0 \<longrightarrow> occupancy_rate (get_reports fa s S E) = 0)"
  (is "?A \<and> ?B \<and> ?C \<and> ?D \<and> ?R \<and> ?Z")
proof -
  have a: ?A
    using get_reports_cancelled[of fa s S E] by (simp add: counted_cancelled_def[abs_def])
  have b: ?B
  proof
    assume v: "valid_dates s"
    have "filter (counted_cancelled S E) (bookings s)
            = filter (\<lambda>b. status b = ''Cancelled'' \<and> S \<le> check_in_date b \<and> check_in_date b < E)
                (bookings s)"
      by (rule filter_cong[OF refl])
        (simp add: counted_cancelled_valid v[unfolded valid_dates_def, rule_format])
    then show "cancelled_bookings (get_reports fa s S E)
          = int (length (filter (\<lambda>b. status b = ''Cancelled''
                                    \<and> S \<le> check_in_date b \<and> check_in_date b < E) (bookings s)))"
      by (simp add: get_reports_cancelled)
  qed
  have c: ?C by (rule get_reports_occupied)
  have d: ?D by (rule get_reports_nights)
  have r: ?R
    using get_reports_rate[of fa s S E] by (simp add: get_reports_nights get_reports_occupied)
  have z: ?Z using r by simp
  from a b c d r z show ?thesis by (intro conjI)
qed

text \<open>Two rooms and the window from day 10 to day 14: two of eight nights are occupied. The
  cancelled booking is counted in the window from day 12 to day 14. With no room at all
  the rate is 0.\<close>

theorem get_reports_contract_witness:
  "valid_dates late_cancel_store
   \<and> cancelled_bookings (get_reports exact_arith late_cancel_store 12 14) = 1
   \<and> occupied_nights (get_reports exact_arith late_cancel_store 10 14) = 2
   \<and> total_nights (get_reports exact_arith late_cancel_store 10 14) = 8
   \<and> occupancy_rate (get_reports exact_arith late_cancel_store 10 14) = 25
   \<and> occupancy_rate (get_reports exact_arith (late_cancel_store\<lparr>rooms := []\<rparr>) 10 14) = 0"
proof -
  have v: "valid_dates late_cancel_store" by (simp add: late_cancel_store_def valid_dates_def)
  note c = get_reports_contract[where s = late_cancel_store and fa = exact_arith]
  have 1: "cancelled_bookings (get_reports exact_arith late_cancel_store 12 14) = 1"
    using c[where S = 12 and E = 14, THEN conjunct2, THEN conjunct1, THEN mp, OF v]
    by (simp add: late_cancel_store_def)
  have 2: "occupied_nights (get_reports exact_arith late_cancel_store 10 14) = 2"
    using c[where S = 10 and E = 14, THEN conjunct2, THEN conjunct2, THEN conjunct1]
    by (simp add: late_cancel_store_def nights_in_window_def)
  have 3: "total_nights (get_reports exact_arith late_cancel_store 10 14) = 8"
    using c[where S = 10 and E = 14, THEN conjunct2, THEN conjunct2, THEN conjunct2, THEN conjunct1]
    by (simp add: late_cancel_store_def demo_store_def)
  have 4: "occupancy_rate (get_reports exact_arith late_cancel_store 10 14) = 25"
    using c[where S = 10 and E = 14, THEN conjunct2, THEN conjunct2, THEN conjunct2,
        THEN conjunct2, THEN conjunct1]
    by (simp add: late_cancel_store_def demo_store_def nights_in_window_def exact_arith_def)
  have 5: "occupancy_rate (get_reports exact_arith (late_cancel_store\<lparr>rooms := []\<rparr>) 10 14) = 0"
    using get_reports_contract[where s = "late_cancel_store\<lparr>rooms := []\<rparr>" and fa = exact_arith
        and S = 10 and E = 14,
        THEN conjunct2, THEN conjunct2, THEN conjunct2, THEN conjunct2, THEN conjunct2]
    by simp
  from v 1 2 3 4 5 show ?thesis by (intro conjI)
qed

text \<open>
  As first stated the claim counted every Cancelled booking that checks in from \<open>S\<close> to \<open>E\<close>
  inclusive, whether or not its interval overlaps the window. The count is made only
  under the test that the overlap is not empty, so a cancelled booking that checks in on
  the day \<open>E\<close> itself is not counted: the window from day 10 to day 12 has one such
  booking and the report says 0. The count is an integer, so no float operation touches it.
\<close>

theorem get_reports_contract_counterexample:
  "run_ops demo_store late_cancel_ops = Some late_cancel_store
   \<and> (10::int) < 12
   \<and> length (filter (\<lambda>b. status b = ''Cancelled''
                          \<and> 10 \<le> check_in_date b \<and> check_in_date b \<le> 12)
               (bookings late_cancel_store)) = 1
   \<and> cancelled_bookings (get_reports exact_arith late_cancel_store 10 12) = 0"
proof -
  have 1: "length (filter (\<lambda>b. status b = ''Cancelled''
                          \<and> 10 \<le> check_in_date b \<and> check_in_date b \<le> 12)
               (bookings late_cancel_store)) = 1"
    by (simp add: late_cancel_store_def)
  have 2: "cancelled_bookings (get_reports exact_arith late_cancel_store 10 12) = 0"
    by (simp add: late_cancel_store_def get_reports_def report_step_def Let_def)
  from late_cancel_store_reached 1 2 show ?thesis by simp
qed
end
